theory Spec2Isabelle
  imports Main "HOL-Library.Word"
begin

unbundle bit_operations_syntax

section \<open>The entropy complex driver (sw/device/lib/crypto/drivers/entropy.c)\<close>

text \<open>
  The driver talks to three hardware blocks (entropy\_src, CSRNG, two EDNs) through
  32-bit memory-mapped registers. This theory embeds the driver's functions over an
  explicit log of register accesses and proves properties of the logs and results they
  produce.
\<close>

subsection \<open>Machine words and result codes\<close>

type_synonym u32 = "32 word"
type_synonym u16 = "16 word"

text \<open>
  The four result codes the driver returns (\<open>status_t\<close>): \<open>OTCRYPTO_OK\<close>,
  \<open>OTCRYPTO_RECOV_ERR\<close>, \<open>OTCRYPTO_BAD_ARGS\<close> and the result of the
  \<open>OUT_OF_RANGE()\<close> macro. \<open>HARDENED_TRY(e)\<close> returns the status of \<open>e\<close> from the
  enclosing function unless it is \<open>OTCRYPTO_OK\<close>; it is written out as a case split at
  each use.
\<close>

datatype status = OTCRYPTO_OK | OTCRYPTO_RECOV_ERR | OTCRYPTO_BAD_ARGS | OUT_OF_RANGE

subsection \<open>Register accesses\<close>

text \<open>
  One event per call of the platform primitives: a read of an address with the value the
  hardware returned, or a write of a value to an address. A trace lists the events in
  the order the driver performed them.
\<close>

datatype access = Read32 u32 u32 | Write32 u32 u32

type_synonym trace = "access list"

text \<open>
  The hardware is a function from the accesses performed so far and the address read to
  the value that read returns. Any deterministic device is of this form: a status bit
  that becomes set after the third poll, a register that holds the last value written to
  it, a FIFO that yields a new word on each read.
\<close>

type_synonym hw = "trace \<Rightarrow> u32 \<Rightarrow> u32"

text \<open>
  Modelled from the spec: \<open>abs_mmio_read32\<close> and \<open>abs_mmio_write32\<close>
  (sw/device/lib/base/abs\_mmio.h, not under src/) are the abstract capabilities "read
  32-bit register at offset" and "write 32-bit register at offset", atomic and without
  effect on anything but the target register. Here each returns the trace extended by
  its event.
\<close>

definition abs_mmio_read32 :: "hw \<Rightarrow> u32 \<Rightarrow> trace \<Rightarrow> u32 \<times> trace" where
  "abs_mmio_read32 h addr tr = (h tr addr, tr @ [Read32 addr (h tr addr)])"

definition abs_mmio_write32 :: "u32 \<Rightarrow> u32 \<Rightarrow> trace \<Rightarrow> trace" where
  "abs_mmio_write32 addr v tr = tr @ [Write32 addr v]"

subsection \<open>Bit fields\<close>

text \<open>
  Modelled from the spec: the helpers of sw/device/lib/base/bitfield.h (not under src/).
  The spec speaks of a register's "designated subfield" given by a mask and an index:
  reading a field shifts the register right by the index and masks it; writing a field
  replaces exactly those bits by the masked value. A single bit is the field of mask 1
  at the bit's index.
\<close>

record bitfield_field32 =
  fmask :: u32
  findex :: u32

definition bitfield_field32_read :: "u32 \<Rightarrow> bitfield_field32 \<Rightarrow> u32" where
  "bitfield_field32_read bitfield field =
     drop_bit (unat (findex field)) bitfield AND fmask field"

definition bitfield_field32_write :: "u32 \<Rightarrow> bitfield_field32 \<Rightarrow> u32 \<Rightarrow> u32" where
  "bitfield_field32_write bitfield field v =
     (bitfield AND NOT (push_bit (unat (findex field)) (fmask field)))
       OR push_bit (unat (findex field)) (v AND fmask field)"

definition bitfield_bit32_to_field32 :: "u32 \<Rightarrow> bitfield_field32" where
  "bitfield_bit32_to_field32 bit_index = \<lparr>fmask = 1, findex = bit_index\<rparr>"

definition bitfield_bit32_read :: "u32 \<Rightarrow> u32 \<Rightarrow> bool" where
  "bitfield_bit32_read bitfield bit_index =
     (bitfield_field32_read bitfield (bitfield_bit32_to_field32 bit_index) = 1)"

definition bitfield_bit32_write :: "u32 \<Rightarrow> u32 \<Rightarrow> bool \<Rightarrow> u32" where
  "bitfield_bit32_write bitfield bit_index v =
     bitfield_field32_write bitfield (bitfield_bit32_to_field32 bit_index)
       (if v then 1 else 0)"

text \<open>
  Modelled from the spec: \<open>launder32\<close> (hardened.h) is an optimisation barrier that
  returns its argument; \<open>misalignment32_of\<close> (memory.h) is the distance of an address
  from the previous multiple of the word size, zero for a "naturally word-aligned"
  pointer; \<open>ceil_div\<close> (math.h) is division "rounding up". None of the three headers is
  under src/. Sizes (\<open>size_t\<close>) are natural numbers.
\<close>

definition launder32 :: "u32 \<Rightarrow> u32" where
  "launder32 v = v"

definition misalignment32_of :: "u32 \<Rightarrow> u32" where
  "misalignment32_of addr = addr mod 4"

definition ceil_div :: "nat \<Rightarrow> nat \<Rightarrow> nat" where
  "ceil_div a b = (a + b - 1) div b"

subsection \<open>Generated constants\<close>

text \<open>
  The register offsets, reset values, field positions and bit indices come from the
  generated headers csrng\_regs.h, edn\_regs.h, entropy\_src\_regs.h and top\_earlgrey.h;
  the multi-bit and hardened boolean encodings come from multibits.h and hardened.h.
  None of them is under src/, so they are parameters of the model: a register, field or
  bit is named as in the source, and a \<open>chip\<close> gives each name its number.
  \<open>REG_OFFSET c CSRNG_CTRL\<close> stands for the source's \<open>CSRNG_CTRL_REG_OFFSET\<close>,
  \<open>REG_RESVAL c EDN_CTRL\<close> for \<open>EDN_CTRL_REG_RESVAL\<close>,
  \<open>FIELD c CSRNG_CTRL_ENABLE\<close> for \<open>CSRNG_CTRL_ENABLE_FIELD\<close>,
  \<open>BIT c EDN_SW_CMD_STS_CMD_RDY\<close> for \<open>EDN_SW_CMD_STS_CMD_RDY_BIT\<close>, and
  \<open>THRESHOLDS REPCNT\<close> for the \<open>ENTROPY_SRC_REPCNT_THRESHOLDS\<close> register that the
  macros \<open>SET_FIPS_THRESH\<close> and \<open>VERIFY_FIPS_THRESH\<close> build from a name.
\<close>

datatype thresh_name =
  REPCNT | REPCNTS | ADAPTP_HI | ADAPTP_LO | BUCKET | MARKOV_HI | MARKOV_LO
  | EXTHT_HI | EXTHT_LO

datatype reg_name =
  CSRNG_MAIN_SM_STATE | CSRNG_SW_CMD_STS | CSRNG_INTR_STATE | CSRNG_GENBITS_VLD
  | CSRNG_GENBITS | CSRNG_CMD_REQ | CSRNG_CTRL
  | EDN_CTRL | EDN_SW_CMD_STS | EDN_RESEED_CMD | EDN_GENERATE_CMD
  | EDN_MAX_NUM_REQS_BETWEEN_RESEEDS | EDN_SW_CMD_REQ
  | ENTROPY_SRC_MODULE_ENABLE | ENTROPY_SRC_ENTROPY_CONTROL | ENTROPY_SRC_CONF
  | ENTROPY_SRC_HEALTH_TEST_WINDOWS | ENTROPY_SRC_ALERT_THRESHOLD
  | THRESHOLDS thresh_name

datatype field_name =
  CSRNG_CTRL_ENABLE | CSRNG_CTRL_SW_APP_ENABLE | CSRNG_CTRL_READ_INT_STATE
  | EDN_CTRL_CMD_FIFO_RST | EDN_CTRL_EDN_ENABLE | EDN_CTRL_AUTO_REQ_MODE
  | ENTROPY_SRC_ENTROPY_CONTROL_ES_ROUTE | ENTROPY_SRC_ENTROPY_CONTROL_ES_TYPE
  | ENTROPY_SRC_CONF_FIPS_ENABLE | ENTROPY_SRC_CONF_ENTROPY_DATA_REG_ENABLE
  | ENTROPY_SRC_CONF_THRESHOLD_SCOPE | ENTROPY_SRC_CONF_RNG_BIT_ENABLE
  | ENTROPY_SRC_CONF_RNG_BIT_SEL
  | ENTROPY_SRC_HEALTH_TEST_WINDOWS_FIPS_WINDOW
  | ENTROPY_SRC_ALERT_THRESHOLD_ALERT_THRESHOLD
  | ENTROPY_SRC_ALERT_THRESHOLD_ALERT_THRESHOLD_INV
  | THRESHOLDS_FIPS_THRESH thresh_name

datatype bit_name =
  CSRNG_SW_CMD_STS_CMD_RDY | CSRNG_SW_CMD_STS_CMD_STS
  | CSRNG_INTR_STATE_CS_CMD_REQ_DONE
  | CSRNG_GENBITS_VLD_GENBITS_VLD | CSRNG_GENBITS_VLD_GENBITS_FIPS
  | EDN_SW_CMD_STS_CMD_RDY | EDN_SW_CMD_STS_CMD_STS

record chip =
  kBaseCsrng :: u32
  kBaseEntropySrc :: u32
  kBaseEdn0 :: u32
  kBaseEdn1 :: u32
  REG_OFFSET :: "reg_name \<Rightarrow> u32"
  REG_RESVAL :: "reg_name \<Rightarrow> u32"
  FIELD :: "field_name \<Rightarrow> bitfield_field32"
  BIT :: "bit_name \<Rightarrow> u32"
  kMultiBitBool4True :: u32
  kMultiBitBool4False :: u32
  kHardenedBoolTrue :: u32
  kHardenedBoolFalse :: u32

text \<open>Constants the source file itself defines.\<close>

definition kEntropyCsrngBitsBufferNumWords :: nat where
  "kEntropyCsrngBitsBufferNumWords = 4"

definition kCsrngIdleNumTries :: nat where
  "kCsrngIdleNumTries = 100000"

definition kCsrngMainSmIdle :: u32 where
  "kCsrngMainSmIdle = 0x4e"

definition kMaxGenerateSizeIn128BitBlocks :: u32 where
  "kMaxGenerateSizeIn128BitBlocks = 0x800"

definition kAppCmdFieldFlag0 :: bitfield_field32 where
  "kAppCmdFieldFlag0 = \<lparr>fmask = 0xf, findex = 8\<rparr>"

definition kAppCmdFieldCmdId :: bitfield_field32 where
  "kAppCmdFieldCmdId = \<lparr>fmask = 0xf, findex = 0\<rparr>"

definition kAppCmdFieldCmdLen :: bitfield_field32 where
  "kAppCmdFieldCmdLen = \<lparr>fmask = 0xf, findex = 4\<rparr>"

definition kAppCmdFieldGlen :: bitfield_field32 where
  "kAppCmdFieldGlen = \<lparr>fmask = 0x7ffff, findex = 12\<rparr>"

subsection \<open>Commands and configurations\<close>

text \<open>The five application commands and their numbers (\<open>entropy_csrng_op_t\<close>).\<close>

datatype entropy_csrng_op =
  kEntropyDrbgOpInstantiate | kEntropyDrbgOpReseed | kEntropyDrbgOpGenerate
  | kEntropyDrbgOpUpdate | kEntropyDrbgOpUninstantiate

fun op_code :: "entropy_csrng_op \<Rightarrow> u32" where
  "op_code kEntropyDrbgOpInstantiate = 1"
| "op_code kEntropyDrbgOpReseed = 2"
| "op_code kEntropyDrbgOpGenerate = 3"
| "op_code kEntropyDrbgOpUpdate = 4"
| "op_code kEntropyDrbgOpUninstantiate = 5"

text \<open>
  Seed material (\<open>entropy_seed_material_t\<close>, declared in entropy.h, not under src/): the
  word count \<open>len\<close>, the address of its words (\<open>data_ptr\<close>, what the source obtains by
  casting \<open>data\<close> to \<open>uintptr_t\<close>) and the words themselves, \<open>data i\<close> being the
  source's \<open>data[i]\<close>. A \<open>NULL\<close> pointer to seed material is \<open>None\<close>.
\<close>

record entropy_seed_material =
  len :: u32
  data_ptr :: u32
  data :: "nat \<Rightarrow> u32"

record entropy_csrng_cmd =
  cmd_id :: entropy_csrng_op
  disable_trng_input :: u32
  seed_material :: "entropy_seed_material option"
  generate_len :: u32

record edn_config =
  base_address :: u32
  reseed_interval :: u32
  instantiate :: entropy_csrng_cmd
  generate :: entropy_csrng_cmd
  reseed :: entropy_csrng_cmd

record entropy_src_config =
  fips_enable :: u32
  route_to_firmware :: u32
  bypass_conditioner :: u32
  single_bit_mode :: u32
  fips_test_window_size :: u16
  alert_threshold :: u16
  repcnt_threshold :: u16
  repcnts_threshold :: u16
  adaptp_hi_threshold :: u16
  adaptp_lo_threshold :: u16
  bucket_threshold :: u16
  markov_hi_threshold :: u16
  markov_lo_threshold :: u16
  extht_hi_threshold :: u16
  extht_lo_threshold :: u16

definition kEntropyComplexConfigIdContinuous :: u32 where
  "kEntropyComplexConfigIdContinuous = 0"

definition kEntropyComplexConfigIdNumEntries :: u32 where
  "kEntropyComplexConfigIdNumEntries = 1"

record entropy_complex_config =
  config_id :: u32
  entropy_src :: entropy_src_config
  edn0 :: edn_config
  edn1 :: edn_config

text \<open>
  The configuration table. Members the initialiser leaves out are zero, as in C: the
  entry's \<open>id\<close> and the \<open>disable_trng_input\<close> of EDN1's generate command.
\<close>

definition kEntropyComplexConfigs :: "chip \<Rightarrow> entropy_complex_config list" where
  "kEntropyComplexConfigs c =
    [\<lparr>config_id = 0,
      entropy_src =
        \<lparr>fips_enable = kMultiBitBool4True c,
         route_to_firmware = kMultiBitBool4False c,
         bypass_conditioner = kMultiBitBool4False c,
         single_bit_mode = kMultiBitBool4False c,
         fips_test_window_size = 0x200,
         alert_threshold = 2,
         repcnt_threshold = 0xffff,
         repcnts_threshold = 0xffff,
         adaptp_hi_threshold = 0xffff,
         adaptp_lo_threshold = 0x0,
         bucket_threshold = 0xffff,
         markov_hi_threshold = 0xffff,
         markov_lo_threshold = 0x0,
         extht_hi_threshold = 0xffff,
         extht_lo_threshold = 0x0\<rparr>,
      edn0 =
        \<lparr>base_address = kBaseEdn0 c,
         reseed_interval = 32,
         instantiate =
           \<lparr>cmd_id = kEntropyDrbgOpInstantiate,
            disable_trng_input = kHardenedBoolFalse c,
            seed_material = None,
            generate_len = 0\<rparr>,
         generate =
           \<lparr>cmd_id = kEntropyDrbgOpGenerate,
            disable_trng_input = kHardenedBoolFalse c,
            seed_material = None,
            generate_len = 8\<rparr>,
         reseed =
           \<lparr>cmd_id = kEntropyDrbgOpReseed,
            disable_trng_input = kHardenedBoolFalse c,
            seed_material = None,
            generate_len = 0\<rparr>\<rparr>,
      edn1 =
        \<lparr>base_address = kBaseEdn1 c,
         reseed_interval = 4,
         instantiate =
           \<lparr>cmd_id = kEntropyDrbgOpInstantiate,
            disable_trng_input = kHardenedBoolFalse c,
            seed_material = None,
            generate_len = 0\<rparr>,
         generate =
           \<lparr>cmd_id = kEntropyDrbgOpGenerate,
            disable_trng_input = 0,
            seed_material = None,
            generate_len = 1\<rparr>,
         reseed =
           \<lparr>cmd_id = kEntropyDrbgOpReseed,
            disable_trng_input = kHardenedBoolFalse c,
            seed_material = None,
            generate_len = 0\<rparr>\<rparr>\<rparr>]"

subsection \<open>Waiting for the hardware\<close>

text \<open>
  \<open>csrng_fsm_idle_wait\<close>: at most \<open>kCsrngIdleNumTries\<close> reads of the main state machine's
  state; the loop counter is not used in the body, so the model counts the tries left.
\<close>

fun csrng_fsm_idle_wait_tries :: "chip \<Rightarrow> hw \<Rightarrow> nat \<Rightarrow> trace \<Rightarrow> status \<times> trace" where
  "csrng_fsm_idle_wait_tries c h 0 tr = (OTCRYPTO_RECOV_ERR, tr)"
| "csrng_fsm_idle_wait_tries c h (Suc n) tr =
     (case abs_mmio_read32 h (kBaseCsrng c + REG_OFFSET c CSRNG_MAIN_SM_STATE) tr of
        (reg, tr') \<Rightarrow>
          if reg = kCsrngMainSmIdle then (OTCRYPTO_OK, tr')
          else csrng_fsm_idle_wait_tries c h n tr')"

definition csrng_fsm_idle_wait :: "chip \<Rightarrow> hw \<Rightarrow> trace \<Rightarrow> status \<times> trace" where
  "csrng_fsm_idle_wait c h tr = csrng_fsm_idle_wait_tries c h kCsrngIdleNumTries tr"

text \<open>
  The unbounded polls of the source all have the shape
  \<^verbatim>\<open>do { reg = abs_mmio_read32(addr); } while (!bitfield_bit32_read(reg, bit));\<close>
  and may run forever: \<open>None\<close> is the poll that never ends, \<open>Some (reg, tr)\<close> gives
  the last value read and the trace including every read of the poll.
\<close>

partial_function (option) poll_bit32 :: "hw \<Rightarrow> u32 \<Rightarrow> u32 \<Rightarrow> trace \<Rightarrow> (u32 \<times> trace) option"
  where
  "poll_bit32 h addr bit_index tr =
     (case abs_mmio_read32 h addr tr of
        (reg, tr') \<Rightarrow>
          if bitfield_bit32_read reg bit_index then Some (reg, tr')
          else poll_bit32 h addr bit_index tr')"

subsection \<open>Sending a command\<close>

text \<open>
  The header built by \<open>csrng_send_app_cmd\<close> from the command and the seed length
  (the statements between "Build and write application command header" and the write).
\<close>

definition app_cmd_header :: "chip \<Rightarrow> entropy_csrng_cmd \<Rightarrow> u32 \<Rightarrow> u32" where
  "app_cmd_header c cmd cmd_len =
     (let reg = bitfield_field32_write 0 kAppCmdFieldCmdId (op_code (cmd_id cmd));
          reg = bitfield_field32_write reg kAppCmdFieldCmdLen cmd_len;
          reg = bitfield_field32_write reg kAppCmdFieldGlen (generate_len cmd)
      in if launder32 (disable_trng_input cmd) = kHardenedBoolTrue c
         then bitfield_field32_write reg kAppCmdFieldFlag0 (kMultiBitBool4True c)
         else reg)"

text \<open>
  The completion check at the end of \<open>csrng_send_app_cmd\<close> (the body of the last
  \<open>if (check_completion)\<close>).
\<close>

definition csrng_cmd_completion :: "chip \<Rightarrow> hw \<Rightarrow> entropy_csrng_cmd \<Rightarrow> trace \<Rightarrow> (status \<times> trace) option"
  where
  "csrng_cmd_completion c h cmd tr =
     (if cmd_id cmd = kEntropyDrbgOpGenerate then
        (case poll_bit32 h (kBaseCsrng c + REG_OFFSET c CSRNG_GENBITS_VLD)
                (BIT c CSRNG_GENBITS_VLD_GENBITS_VLD) tr of
           None \<Rightarrow> None
         | Some (reg, tr') \<Rightarrow> Some (OTCRYPTO_OK, tr'))
      else
        (case poll_bit32 h (kBaseCsrng c + REG_OFFSET c CSRNG_INTR_STATE)
                (BIT c CSRNG_INTR_STATE_CS_CMD_REQ_DONE) tr of
           None \<Rightarrow> None
         | Some (reg, tr') \<Rightarrow>
             (case abs_mmio_read32 h (kBaseCsrng c + REG_OFFSET c CSRNG_SW_CMD_STS) tr' of
                (reg, tr'') \<Rightarrow>
                  if bitfield_bit32_read reg (BIT c CSRNG_SW_CMD_STS_CMD_STS)
                  then Some (OTCRYPTO_RECOV_ERR, tr'')
                  else Some (OTCRYPTO_OK, tr''))))"

definition csrng_send_app_cmd ::
  "chip \<Rightarrow> hw \<Rightarrow> u32 \<Rightarrow> entropy_csrng_cmd \<Rightarrow> bool \<Rightarrow> trace \<Rightarrow> (status \<times> trace) option" where
  "csrng_send_app_cmd c h reg_address cmd check_completion tr =
     (if generate_len cmd > kMaxGenerateSizeIn128BitBlocks then Some (OUT_OF_RANGE, tr)
      else
        (case csrng_fsm_idle_wait c h tr of
           (st, tr1) \<Rightarrow>
             if st \<noteq> OTCRYPTO_OK then Some (st, tr1)
             else
               (case poll_bit32 h (kBaseCsrng c + REG_OFFSET c CSRNG_SW_CMD_STS)
                       (BIT c CSRNG_SW_CMD_STS_CMD_RDY) tr1 of
                  None \<Rightarrow> None
                | Some (reg, tr2) \<Rightarrow>
                    (let cmd_len = (case seed_material cmd of None \<Rightarrow> 0 | Some sm \<Rightarrow> len sm)
                     in
                       if cmd_len AND NOT (fmask kAppCmdFieldCmdLen) \<noteq> 0
                       then Some (OTCRYPTO_RECOV_ERR, tr2)
                       else if (case seed_material cmd of
                                  None \<Rightarrow> False
                                | Some sm \<Rightarrow> misalignment32_of (data_ptr sm) \<noteq> 0)
                       then Some (OTCRYPTO_RECOV_ERR, tr2)
                       else
                         (let tr3 =
                                (if check_completion
                                 then abs_mmio_write32 (kBaseCsrng c + REG_OFFSET c CSRNG_INTR_STATE)
                                        (bitfield_bit32_write 0
                                           (BIT c CSRNG_INTR_STATE_CS_CMD_REQ_DONE) True) tr2
                                 else tr2);
                              tr4 = abs_mmio_write32 reg_address (app_cmd_header c cmd cmd_len) tr3;
                              tr5 = fold (\<lambda>i. abs_mmio_write32 reg_address
                                                 (data (the (seed_material cmd)) i))
                                      [0..<unat cmd_len] tr4
                          in if check_completion then csrng_cmd_completion c h cmd tr5
                             else Some (OTCRYPTO_OK, tr5))))))"

subsection \<open>CSRNG and EDN\<close>

definition csrng_configure :: "chip \<Rightarrow> trace \<Rightarrow> trace" where
  "csrng_configure c tr =
     (let reg = bitfield_field32_write 0 (FIELD c CSRNG_CTRL_ENABLE) (kMultiBitBool4True c);
          reg = bitfield_field32_write reg (FIELD c CSRNG_CTRL_SW_APP_ENABLE)
                  (kMultiBitBool4True c);
          reg = bitfield_field32_write reg (FIELD c CSRNG_CTRL_READ_INT_STATE)
                  (kMultiBitBool4True c)
      in abs_mmio_write32 (kBaseCsrng c + REG_OFFSET c CSRNG_CTRL) reg tr)"

definition edn_stop :: "chip \<Rightarrow> hw \<Rightarrow> u32 \<Rightarrow> trace \<Rightarrow> trace" where
  "edn_stop c h edn_address tr =
     (case abs_mmio_read32 h (edn_address + REG_OFFSET c EDN_CTRL) tr of
        (reg, tr1) \<Rightarrow>
          (let tr2 = abs_mmio_write32 (edn_address + REG_OFFSET c EDN_CTRL)
                       (bitfield_field32_write reg (FIELD c EDN_CTRL_CMD_FIFO_RST)
                          (kMultiBitBool4True c)) tr1
           in abs_mmio_write32 (edn_address + REG_OFFSET c EDN_CTRL)
                (REG_RESVAL c EDN_CTRL) tr2))"

definition edn_ready_block :: "chip \<Rightarrow> hw \<Rightarrow> u32 \<Rightarrow> trace \<Rightarrow> (status \<times> trace) option" where
  "edn_ready_block c h edn_address tr =
     (case poll_bit32 h (edn_address + REG_OFFSET c EDN_SW_CMD_STS)
             (BIT c EDN_SW_CMD_STS_CMD_RDY) tr of
        None \<Rightarrow> None
      | Some (reg, tr') \<Rightarrow>
          if bitfield_bit32_read reg (BIT c EDN_SW_CMD_STS_CMD_STS)
          then Some (OTCRYPTO_RECOV_ERR, tr')
          else Some (OTCRYPTO_OK, tr'))"

definition edn_configure :: "chip \<Rightarrow> hw \<Rightarrow> edn_config \<Rightarrow> trace \<Rightarrow> (status \<times> trace) option" where
  "edn_configure c h config tr =
     (case csrng_send_app_cmd c h (base_address config + REG_OFFSET c EDN_RESEED_CMD)
             (reseed config) False tr of
        None \<Rightarrow> None
      | Some (st1, tr1) \<Rightarrow>
          if st1 \<noteq> OTCRYPTO_OK then Some (st1, tr1)
          else
            (case csrng_send_app_cmd c h (base_address config + REG_OFFSET c EDN_GENERATE_CMD)
                    (generate config) False tr1 of
               None \<Rightarrow> None
             | Some (st2, tr2) \<Rightarrow>
                 if st2 \<noteq> OTCRYPTO_OK then Some (st2, tr2)
                 else
                   (let tr3 = abs_mmio_write32
                                (base_address config
                                   + REG_OFFSET c EDN_MAX_NUM_REQS_BETWEEN_RESEEDS)
                                (reseed_interval config) tr2;
                        reg = bitfield_field32_write 0 (FIELD c EDN_CTRL_EDN_ENABLE)
                                (kMultiBitBool4True c);
                        reg = bitfield_field32_write reg (FIELD c EDN_CTRL_AUTO_REQ_MODE)
                                (kMultiBitBool4True c);
                        tr4 = abs_mmio_write32 (base_address config + REG_OFFSET c EDN_CTRL)
                                reg tr3
                    in (case edn_ready_block c h (base_address config) tr4 of
                          None \<Rightarrow> None
                        | Some (st5, tr5) \<Rightarrow>
                            if st5 \<noteq> OTCRYPTO_OK then Some (st5, tr5)
                            else
                              (case csrng_send_app_cmd c h
                                      (base_address config + REG_OFFSET c EDN_SW_CMD_REQ)
                                      (instantiate config) False tr5 of
                                 None \<Rightarrow> None
                               | Some (st6, tr6) \<Rightarrow>
                                   if st6 \<noteq> OTCRYPTO_OK then Some (st6, tr6)
                                   else edn_ready_block c h (base_address config) tr6)))))"

subsection \<open>Entropy source\<close>

definition entropy_src_stop :: "chip \<Rightarrow> trace \<Rightarrow> trace" where
  "entropy_src_stop c tr =
     (let tr = abs_mmio_write32 (kBaseEntropySrc c + REG_OFFSET c ENTROPY_SRC_MODULE_ENABLE)
                 (REG_RESVAL c ENTROPY_SRC_MODULE_ENABLE) tr;
          tr = abs_mmio_write32 (kBaseEntropySrc c + REG_OFFSET c ENTROPY_SRC_ENTROPY_CONTROL)
                 (REG_RESVAL c ENTROPY_SRC_ENTROPY_CONTROL) tr;
          tr = abs_mmio_write32 (kBaseEntropySrc c + REG_OFFSET c ENTROPY_SRC_CONF)
                 (REG_RESVAL c ENTROPY_SRC_CONF) tr;
          tr = abs_mmio_write32
                 (kBaseEntropySrc c + REG_OFFSET c ENTROPY_SRC_HEALTH_TEST_WINDOWS)
                 (REG_RESVAL c ENTROPY_SRC_HEALTH_TEST_WINDOWS) tr
      in abs_mmio_write32 (kBaseEntropySrc c + REG_OFFSET c ENTROPY_SRC_ALERT_THRESHOLD)
           (REG_RESVAL c ENTROPY_SRC_ALERT_THRESHOLD) tr)"

definition entropy_complex_stop_all :: "chip \<Rightarrow> hw \<Rightarrow> trace \<Rightarrow> trace" where
  "entropy_complex_stop_all c h tr =
     (let tr = edn_stop c h (kBaseEdn0 c) tr;
          tr = edn_stop c h (kBaseEdn1 c) tr;
          tr = abs_mmio_write32 (kBaseCsrng c + REG_OFFSET c CSRNG_CTRL)
                 (REG_RESVAL c CSRNG_CTRL) tr
      in entropy_src_stop c tr)"

text \<open>The macro \<open>SET_FIPS_THRESH(name, value)\<close>.\<close>

definition SET_FIPS_THRESH :: "chip \<Rightarrow> thresh_name \<Rightarrow> u32 \<Rightarrow> trace \<Rightarrow> trace" where
  "SET_FIPS_THRESH c name v tr =
     abs_mmio_write32 (kBaseEntropySrc c + REG_OFFSET c (THRESHOLDS name))
       (bitfield_field32_write (REG_RESVAL c (THRESHOLDS name))
          (FIELD c (THRESHOLDS_FIPS_THRESH name)) v) tr"

text \<open>
  A 16-bit member passed where the callee takes \<open>uint32_t\<close> is zero-extended
  (\<open>ucast\<close>); \<open>~config->alert_threshold\<close> is the complement of the promoted value,
  all 32 bits of it.
\<close>

definition entropy_src_configure :: "chip \<Rightarrow> hw \<Rightarrow> entropy_src_config \<Rightarrow> trace \<Rightarrow> status \<times> trace"
  where
  "entropy_src_configure c h config tr =
     (if bypass_conditioner config \<noteq> kMultiBitBool4False c then (OTCRYPTO_BAD_ARGS, tr)
      else
        (let reg = bitfield_field32_write 0 (FIELD c ENTROPY_SRC_ENTROPY_CONTROL_ES_ROUTE)
                     (route_to_firmware config);
             reg = bitfield_field32_write reg (FIELD c ENTROPY_SRC_ENTROPY_CONTROL_ES_TYPE)
                     (bypass_conditioner config);
             tr = abs_mmio_write32
                    (kBaseEntropySrc c + REG_OFFSET c ENTROPY_SRC_ENTROPY_CONTROL) reg tr;
             reg = bitfield_field32_write 0 (FIELD c ENTROPY_SRC_CONF_FIPS_ENABLE)
                     (fips_enable config);
             reg = bitfield_field32_write reg (FIELD c ENTROPY_SRC_CONF_ENTROPY_DATA_REG_ENABLE)
                     (route_to_firmware config);
             reg = bitfield_field32_write reg (FIELD c ENTROPY_SRC_CONF_THRESHOLD_SCOPE)
                     (kMultiBitBool4False c);
             reg = bitfield_field32_write reg (FIELD c ENTROPY_SRC_CONF_RNG_BIT_ENABLE)
                     (single_bit_mode config);
             reg = bitfield_field32_write reg (FIELD c ENTROPY_SRC_CONF_RNG_BIT_SEL) 0;
             tr = abs_mmio_write32 (kBaseEntropySrc c + REG_OFFSET c ENTROPY_SRC_CONF) reg tr;
             tr = abs_mmio_write32
                    (kBaseEntropySrc c + REG_OFFSET c ENTROPY_SRC_HEALTH_TEST_WINDOWS)
                    (bitfield_field32_write (REG_RESVAL c ENTROPY_SRC_HEALTH_TEST_WINDOWS)
                       (FIELD c ENTROPY_SRC_HEALTH_TEST_WINDOWS_FIPS_WINDOW)
                       (ucast (fips_test_window_size config))) tr;
             reg = bitfield_field32_write 0
                     (FIELD c ENTROPY_SRC_ALERT_THRESHOLD_ALERT_THRESHOLD)
                     (ucast (alert_threshold config));
             reg = bitfield_field32_write reg
                     (FIELD c ENTROPY_SRC_ALERT_THRESHOLD_ALERT_THRESHOLD_INV)
                     (NOT (ucast (alert_threshold config)));
             tr = abs_mmio_write32
                    (kBaseEntropySrc c + REG_OFFSET c ENTROPY_SRC_ALERT_THRESHOLD) reg tr;
             tr = SET_FIPS_THRESH c REPCNT (ucast (repcnt_threshold config)) tr;
             tr = SET_FIPS_THRESH c REPCNTS (ucast (repcnts_threshold config)) tr;
             tr = SET_FIPS_THRESH c ADAPTP_HI (ucast (adaptp_hi_threshold config)) tr;
             tr = SET_FIPS_THRESH c ADAPTP_LO (ucast (adaptp_lo_threshold config)) tr;
             tr = SET_FIPS_THRESH c BUCKET (ucast (bucket_threshold config)) tr;
             tr = SET_FIPS_THRESH c MARKOV_HI (ucast (markov_hi_threshold config)) tr;
             tr = SET_FIPS_THRESH c MARKOV_LO (ucast (markov_lo_threshold config)) tr;
             tr = SET_FIPS_THRESH c EXTHT_HI (ucast (extht_hi_threshold config)) tr;
             tr = SET_FIPS_THRESH c EXTHT_LO (ucast (extht_lo_threshold config)) tr;
             tr = abs_mmio_write32
                    (kBaseEntropySrc c + REG_OFFSET c ENTROPY_SRC_MODULE_ENABLE)
                    (kMultiBitBool4True c) tr
         in (OTCRYPTO_OK, tr)))"

text \<open>
  The macro \<open>VERIFY_FIPS_THRESH(name, exp)\<close> returns \<open>OTCRYPTO_RECOV_ERR\<close> from the
  enclosing function when the field read back differs from \<open>exp\<close>. A run of such
  macro calls is the list of their arguments, verified in order until one fails.
\<close>

fun VERIFY_FIPS_THRESH :: "chip \<Rightarrow> hw \<Rightarrow> (thresh_name \<times> u32) list \<Rightarrow> trace \<Rightarrow> status \<times> trace"
  where
  "VERIFY_FIPS_THRESH c h [] tr = (OTCRYPTO_OK, tr)"
| "VERIFY_FIPS_THRESH c h ((name, exp) # rest) tr =
     (case abs_mmio_read32 h (kBaseEntropySrc c + REG_OFFSET c (THRESHOLDS name)) tr of
        (reg, tr') \<Rightarrow>
          (let act = bitfield_field32_read reg (FIELD c (THRESHOLDS_FIPS_THRESH name))
           in if act \<noteq> exp then (OTCRYPTO_RECOV_ERR, tr')
              else VERIFY_FIPS_THRESH c h rest tr'))"

definition entropy_src_check :: "chip \<Rightarrow> hw \<Rightarrow> entropy_src_config \<Rightarrow> trace \<Rightarrow> status \<times> trace"
  where
  "entropy_src_check c h config tr =
     (if fips_enable config \<noteq> kMultiBitBool4True c
         \<or> bypass_conditioner config \<noteq> kMultiBitBool4False c
         \<or> route_to_firmware config \<noteq> kMultiBitBool4False c
      then (OTCRYPTO_BAD_ARGS, tr)
      else
        (case abs_mmio_read32 h (kBaseEntropySrc c + REG_OFFSET c ENTROPY_SRC_MODULE_ENABLE) tr
         of (reg, tr1) \<Rightarrow>
           if reg \<noteq> kMultiBitBool4True c then (OTCRYPTO_RECOV_ERR, tr1)
           else
             (case abs_mmio_read32 h (kBaseEntropySrc c + REG_OFFSET c ENTROPY_SRC_CONF) tr1
              of (reg, tr2) \<Rightarrow>
                (let conf_fips_enable =
                       bitfield_field32_read reg (FIELD c ENTROPY_SRC_CONF_FIPS_ENABLE);
                     conf_rng_bit_enable =
                       bitfield_field32_read reg (FIELD c ENTROPY_SRC_CONF_RNG_BIT_ENABLE)
                 in
                   if conf_fips_enable \<noteq> kMultiBitBool4True c
                      \<or> conf_rng_bit_enable \<noteq> kMultiBitBool4False c
                   then (OTCRYPTO_RECOV_ERR, tr2)
                   else
                     (case abs_mmio_read32 h
                             (kBaseEntropySrc c + REG_OFFSET c ENTROPY_SRC_ENTROPY_CONTROL) tr2
                      of (reg, tr3) \<Rightarrow>
                        (let control_es_type =
                               bitfield_field32_read reg
                                 (FIELD c ENTROPY_SRC_ENTROPY_CONTROL_ES_TYPE);
                             control_es_route =
                               bitfield_field32_read reg
                                 (FIELD c ENTROPY_SRC_ENTROPY_CONTROL_ES_ROUTE)
                         in
                           if control_es_type \<noteq> kMultiBitBool4False c
                              \<or> control_es_route \<noteq> kMultiBitBool4False c
                           then (OTCRYPTO_RECOV_ERR, tr3)
                           else
                             (case abs_mmio_read32 h
                                     (kBaseEntropySrc c
                                        + REG_OFFSET c ENTROPY_SRC_HEALTH_TEST_WINDOWS) tr3
                              of (reg, tr4) \<Rightarrow>
                                if bitfield_field32_read reg
                                     (FIELD c ENTROPY_SRC_HEALTH_TEST_WINDOWS_FIPS_WINDOW)
                                   \<noteq> ucast (fips_test_window_size config)
                                then (OTCRYPTO_RECOV_ERR, tr4)
                                else
                                  (let exp_reg =
                                         bitfield_field32_write 0
                                           (FIELD c ENTROPY_SRC_ALERT_THRESHOLD_ALERT_THRESHOLD)
                                           (ucast (alert_threshold config));
                                       exp_reg =
                                         bitfield_field32_write exp_reg
                                           (FIELD c
                                              ENTROPY_SRC_ALERT_THRESHOLD_ALERT_THRESHOLD_INV)
                                           (NOT (ucast (alert_threshold config)))
                                   in
                                     (case abs_mmio_read32 h
                                             (kBaseEntropySrc c
                                                + REG_OFFSET c ENTROPY_SRC_ALERT_THRESHOLD) tr4
                                      of (reg, tr5) \<Rightarrow>
                                        if exp_reg \<noteq> reg then (OTCRYPTO_RECOV_ERR, tr5)
                                        else
                                          VERIFY_FIPS_THRESH c h
                                            [(REPCNT, ucast (repcnt_threshold config)),
                                             (REPCNTS, ucast (repcnts_threshold config)),
                                             (ADAPTP_HI, ucast (adaptp_hi_threshold config)),
                                             (ADAPTP_LO, ucast (adaptp_lo_threshold config)),
                                             (BUCKET, ucast (bucket_threshold config)),
                                             (MARKOV_HI, ucast (markov_hi_threshold config)),
                                             (MARKOV_LO, ucast (markov_lo_threshold config)),
                                             (EXTHT_HI, ucast (extht_hi_threshold config)),
                                             (EXTHT_LO, ucast (extht_lo_threshold config))]
                                            tr5)))))))))"

definition csrng_check :: "chip \<Rightarrow> hw \<Rightarrow> trace \<Rightarrow> status \<times> trace" where
  "csrng_check c h tr =
     (case abs_mmio_read32 h (kBaseCsrng c + REG_OFFSET c CSRNG_CTRL) tr of
        (reg, tr') \<Rightarrow>
          (let enable = bitfield_field32_read reg (FIELD c CSRNG_CTRL_ENABLE)
           in if enable = kMultiBitBool4True c then (OTCRYPTO_OK, tr')
              else (OTCRYPTO_RECOV_ERR, tr')))"

definition edn_check :: "chip \<Rightarrow> hw \<Rightarrow> edn_config \<Rightarrow> trace \<Rightarrow> status \<times> trace" where
  "edn_check c h config tr =
     (case abs_mmio_read32 h (base_address config + REG_OFFSET c EDN_CTRL) tr of
        (reg, tr') \<Rightarrow>
          (let edn_enable = bitfield_field32_read reg (FIELD c EDN_CTRL_EDN_ENABLE);
               auto_req_mode = bitfield_field32_read reg (FIELD c EDN_CTRL_AUTO_REQ_MODE)
           in if edn_enable = kMultiBitBool4True c \<and> auto_req_mode = kMultiBitBool4True c
              then (OTCRYPTO_OK, tr')
              else (OTCRYPTO_RECOV_ERR, tr')))"

subsection \<open>Bringing the complex up and checking it\<close>

text \<open>
  \<open>entropy_complex_init\<close> and \<open>entropy_complex_check\<close> read their entry from the table
  in memory and compare its identifier with the expected one before using it. The
  functions \<open>entropy_complex_init_from\<close> and \<open>entropy_complex_check_from\<close> are their
  bodies over whatever table the memory holds at the time of the call; the source's
  functions are these bodies at the table the source defines.
\<close>

definition entropy_complex_init_from ::
  "chip \<Rightarrow> hw \<Rightarrow> entropy_complex_config list \<Rightarrow> trace \<Rightarrow> (status \<times> trace) option" where
  "entropy_complex_init_from c h configs tr =
     (let tr0 = entropy_complex_stop_all c h tr;
          config = configs ! unat kEntropyComplexConfigIdContinuous
      in if launder32 (config_id config) \<noteq> kEntropyComplexConfigIdContinuous
         then Some (OTCRYPTO_RECOV_ERR, tr0)
         else
           (case entropy_src_configure c h (entropy_src config) tr0 of
              (st1, tr1) \<Rightarrow>
                if st1 \<noteq> OTCRYPTO_OK then Some (st1, tr1)
                else
                  (let tr2 = csrng_configure c tr1
                   in (case edn_configure c h (edn0 config) tr2 of
                         None \<Rightarrow> None
                       | Some (st3, tr3) \<Rightarrow>
                           if st3 \<noteq> OTCRYPTO_OK then Some (st3, tr3)
                           else edn_configure c h (edn1 config) tr3))))"

definition entropy_complex_init :: "chip \<Rightarrow> hw \<Rightarrow> trace \<Rightarrow> (status \<times> trace) option" where
  "entropy_complex_init c h tr = entropy_complex_init_from c h (kEntropyComplexConfigs c) tr"

definition entropy_complex_check_from ::
  "chip \<Rightarrow> hw \<Rightarrow> entropy_complex_config list \<Rightarrow> trace \<Rightarrow> status \<times> trace" where
  "entropy_complex_check_from c h configs tr =
     (let config = configs ! unat kEntropyComplexConfigIdContinuous
      in if launder32 (config_id config) \<noteq> kEntropyComplexConfigIdContinuous
         then (OTCRYPTO_RECOV_ERR, tr)
         else
           (case entropy_src_check c h (entropy_src config) tr of
              (st1, tr1) \<Rightarrow>
                if st1 \<noteq> OTCRYPTO_OK then (st1, tr1)
                else
                  (case csrng_check c h tr1 of
                     (st2, tr2) \<Rightarrow>
                       if st2 \<noteq> OTCRYPTO_OK then (st2, tr2)
                       else
                         (case edn_check c h (edn0 config) tr2 of
                            (st3, tr3) \<Rightarrow>
                              if st3 \<noteq> OTCRYPTO_OK then (st3, tr3)
                              else edn_check c h (edn1 config) tr3))))"

definition entropy_complex_check :: "chip \<Rightarrow> hw \<Rightarrow> trace \<Rightarrow> status \<times> trace" where
  "entropy_complex_check c h tr = entropy_complex_check_from c h (kEntropyComplexConfigs c) tr"

subsection \<open>The software interface of the CSRNG\<close>

text \<open>Members left out of a compound literal are zero.\<close>

definition entropy_csrng_instantiate ::
  "chip \<Rightarrow> hw \<Rightarrow> u32 \<Rightarrow> entropy_seed_material option \<Rightarrow> trace \<Rightarrow> (status \<times> trace) option" where
  "entropy_csrng_instantiate c h disable_trng_input_arg seed_material_arg tr =
     csrng_send_app_cmd c h (kBaseCsrng c + REG_OFFSET c CSRNG_CMD_REQ)
       \<lparr>cmd_id = kEntropyDrbgOpInstantiate,
        disable_trng_input = disable_trng_input_arg,
        seed_material = seed_material_arg,
        generate_len = 0\<rparr> True tr"

definition entropy_csrng_reseed ::
  "chip \<Rightarrow> hw \<Rightarrow> u32 \<Rightarrow> entropy_seed_material option \<Rightarrow> trace \<Rightarrow> (status \<times> trace) option" where
  "entropy_csrng_reseed c h disable_trng_input_arg seed_material_arg tr =
     csrng_send_app_cmd c h (kBaseCsrng c + REG_OFFSET c CSRNG_CMD_REQ)
       \<lparr>cmd_id = kEntropyDrbgOpReseed,
        disable_trng_input = disable_trng_input_arg,
        seed_material = seed_material_arg,
        generate_len = 0\<rparr> True tr"

definition entropy_csrng_update ::
  "chip \<Rightarrow> hw \<Rightarrow> entropy_seed_material option \<Rightarrow> trace \<Rightarrow> (status \<times> trace) option" where
  "entropy_csrng_update c h seed_material_arg tr =
     csrng_send_app_cmd c h (kBaseCsrng c + REG_OFFSET c CSRNG_CMD_REQ)
       \<lparr>cmd_id = kEntropyDrbgOpUpdate,
        disable_trng_input = 0,
        seed_material = seed_material_arg,
        generate_len = 0\<rparr> True tr"

definition entropy_csrng_generate_start ::
  "chip \<Rightarrow> hw \<Rightarrow> entropy_seed_material option \<Rightarrow> nat \<Rightarrow> trace \<Rightarrow> (status \<times> trace) option" where
  "entropy_csrng_generate_start c h seed_material_arg n tr =
     (let num_128bit_blocks = of_nat (ceil_div n 4)
      in csrng_send_app_cmd c h (kBaseCsrng c + REG_OFFSET c CSRNG_CMD_REQ)
           \<lparr>cmd_id = kEntropyDrbgOpGenerate,
            disable_trng_input = 0,
            seed_material = seed_material_arg,
            generate_len = num_128bit_blocks\<rparr> True tr)"

definition entropy_csrng_uninstantiate :: "chip \<Rightarrow> hw \<Rightarrow> trace \<Rightarrow> (status \<times> trace) option" where
  "entropy_csrng_uninstantiate c h tr =
     csrng_send_app_cmd c h (kBaseCsrng c + REG_OFFSET c CSRNG_CMD_REQ)
       \<lparr>cmd_id = kEntropyDrbgOpUninstantiate,
        disable_trng_input = 0,
        seed_material = None,
        generate_len = 0\<rparr> True tr"

subsection \<open>Reading the generated words\<close>

text \<open>
  The caller's buffer is the memory \<open>buf\<close> points to: \<open>buf i\<close> is the word at
  \<open>buf[i]\<close>. The requested length \<open>n\<close> is the source's \<open>len\<close>.
\<close>

type_synonym buffer = "nat \<Rightarrow> u32"

text \<open>The body of the inner loop: one read of GENBITS, stored if its index is below \<open>n\<close>.\<close>

definition genbits_word_get :: "chip \<Rightarrow> hw \<Rightarrow> nat \<Rightarrow> nat \<Rightarrow> nat \<Rightarrow> buffer \<times> trace \<Rightarrow> buffer \<times> trace"
  where
  "genbits_word_get c h n block_idx offset bt =
     (case bt of (buf, tr) \<Rightarrow>
        (case abs_mmio_read32 h (kBaseCsrng c + REG_OFFSET c CSRNG_GENBITS) tr of
           (word, tr') \<Rightarrow>
             (let word_idx = (block_idx * kEntropyCsrngBitsBufferNumWords)
                               + kEntropyCsrngBitsBufferNumWords - 1 - offset
              in (if word_idx < n then buf(word_idx := word) else buf, tr'))))"

function entropy_csrng_generate_data_get_blocks ::
  "chip \<Rightarrow> hw \<Rightarrow> nat \<Rightarrow> u32 \<Rightarrow> nat \<Rightarrow> nat \<Rightarrow> status \<Rightarrow> buffer \<Rightarrow> trace
     \<Rightarrow> (status \<times> buffer \<times> trace) option" where
  "entropy_csrng_generate_data_get_blocks c h n fips_check nblocks block_idx res buf tr =
     (if block_idx < nblocks then
        (case poll_bit32 h (kBaseCsrng c + REG_OFFSET c CSRNG_GENBITS_VLD)
                (BIT c CSRNG_GENBITS_VLD_GENBITS_VLD) tr of
           None \<Rightarrow> None
         | Some (reg, tr1) \<Rightarrow>
             (let res' = (if fips_check \<noteq> kHardenedBoolFalse c
                             \<and> \<not> bitfield_bit32_read reg (BIT c CSRNG_GENBITS_VLD_GENBITS_FIPS)
                          then OTCRYPTO_RECOV_ERR else res);
                  bt = fold (genbits_word_get c h n block_idx)
                         [0..<kEntropyCsrngBitsBufferNumWords] (buf, tr1)
              in entropy_csrng_generate_data_get_blocks c h n fips_check nblocks
                   (block_idx + 1) res' (fst bt) (snd bt)))
      else Some (res, buf, tr))"
  by pat_completeness auto
termination
  by (relation "measure (\<lambda>(c, h, n, fips_check, nblocks, block_idx, res, buf, tr).
                  nblocks - block_idx)") auto

declare entropy_csrng_generate_data_get_blocks.simps [simp del]

definition entropy_csrng_generate_data_get ::
  "chip \<Rightarrow> hw \<Rightarrow> buffer \<Rightarrow> nat \<Rightarrow> u32 \<Rightarrow> trace \<Rightarrow> (status \<times> buffer \<times> trace) option" where
  "entropy_csrng_generate_data_get c h buf n fips_check tr =
     (let nblocks = ceil_div n 4
      in entropy_csrng_generate_data_get_blocks c h n fips_check nblocks 0 OTCRYPTO_OK buf tr)"

definition entropy_csrng_generate ::
  "chip \<Rightarrow> hw \<Rightarrow> entropy_seed_material option \<Rightarrow> buffer \<Rightarrow> nat \<Rightarrow> u32 \<Rightarrow> trace
     \<Rightarrow> (status \<times> buffer \<times> trace) option" where
  "entropy_csrng_generate c h seed_material_arg buf n fips_check tr =
     (case entropy_csrng_generate_start c h seed_material_arg n tr of
        None \<Rightarrow> None
      | Some (st, tr1) \<Rightarrow>
          if st \<noteq> OTCRYPTO_OK then Some (st, buf, tr1)
          else entropy_csrng_generate_data_get c h buf n fips_check tr1)"

section \<open>Observations on traces\<close>

text \<open>
  The writes of a trace; the accesses a call performed, given the trace before and after
  it; and a call that performed reads only.
\<close>

fun is_write :: "access \<Rightarrow> bool" where
  "is_write (Write32 a v) = True"
| "is_write (Read32 a v) = False"

definition writes :: "trace \<Rightarrow> trace" where
  "writes tr = filter is_write tr"

definition performed :: "trace \<Rightarrow> trace \<Rightarrow> trace" where
  "performed tr tr' = drop (length tr) tr'"

definition reads_only :: "trace \<Rightarrow> trace \<Rightarrow> bool" where
  "reads_only tr tr' \<longleftrightarrow> take (length tr) tr' = tr \<and> writes (performed tr tr') = []"

definition seed_len :: "entropy_csrng_cmd \<Rightarrow> u32" where
  "seed_len cmd = (case seed_material cmd of None \<Rightarrow> 0 | Some sm \<Rightarrow> len sm)"

definition seed_misaligned :: "entropy_csrng_cmd \<Rightarrow> bool" where
  "seed_misaligned cmd =
     (case seed_material cmd of None \<Rightarrow> False | Some sm \<Rightarrow> misalignment32_of (data_ptr sm) \<noteq> 0)"

text \<open>The value last written to an address, if any.\<close>

definition last_write :: "u32 \<Rightarrow> trace \<Rightarrow> u32 option" where
  "last_write a tr =
     foldl (\<lambda>r e. case e of Write32 a' v \<Rightarrow> if a' = a then Some v else r | Read32 a' v \<Rightarrow> r)
       None tr"

text \<open>The values the reads of an address returned, in order.\<close>

definition reads_of :: "u32 \<Rightarrow> trace \<Rightarrow> u32 list" where
  "reads_of a tr =
     concat (map (\<lambda>e. case e of Read32 a' v \<Rightarrow> if a' = a then [v] else [] | Write32 a' v \<Rightarrow> [])
       tr)"

text \<open>
  A wait on an address: reads of \<open>a\<close> only, the last returning a value that satisfies
  \<open>P\<close> and none before it. A poll of bit \<open>b\<close> waits for the bit to be set; the idle
  wait waits for the state \<open>kCsrngMainSmIdle\<close>.
\<close>

fun reads_until :: "u32 \<Rightarrow> (u32 \<Rightarrow> bool) \<Rightarrow> trace \<Rightarrow> bool" where
  "reads_until a P [] = False"
| "reads_until a P [e] =
     (case e of Read32 a' v \<Rightarrow> a' = a \<and> P v | Write32 a' v \<Rightarrow> False)"
| "reads_until a P (e # es) =
     (case e of Read32 a' v \<Rightarrow> a' = a \<and> \<not> P v \<and> reads_until a P es
      | Write32 a' v \<Rightarrow> False)"

definition is_poll :: "u32 \<Rightarrow> u32 \<Rightarrow> trace \<Rightarrow> bool" where
  "is_poll a b ext = reads_until a (\<lambda>v. bitfield_bit32_read v b) ext"

definition is_idle_wait :: "chip \<Rightarrow> trace \<Rightarrow> bool" where
  "is_idle_wait c ext =
     reads_until (kBaseCsrng c + REG_OFFSET c CSRNG_MAIN_SM_STATE)
       (\<lambda>v. v = kCsrngMainSmIdle) ext"

text \<open>
  The seed words of a command and the writes that send it to \<open>reg_address\<close>: the clearing
  of the command-request-done bit when completion is tracked, the header, the seed words.
\<close>

definition seed_words :: "entropy_csrng_cmd \<Rightarrow> u32 list" where
  "seed_words cmd = map (data (the (seed_material cmd))) [0..<unat (seed_len cmd)]"

definition cmd_writes :: "chip \<Rightarrow> u32 \<Rightarrow> entropy_csrng_cmd \<Rightarrow> bool \<Rightarrow> trace" where
  "cmd_writes c reg_address cmd check_completion =
     (if check_completion
      then [Write32 (kBaseCsrng c + REG_OFFSET c CSRNG_INTR_STATE)
              (bitfield_bit32_write 0 (BIT c CSRNG_INTR_STATE_CS_CMD_REQ_DONE) True)]
      else [])
     @ Write32 reg_address (app_cmd_header c cmd (seed_len cmd))
       # map (Write32 reg_address) (seed_words cmd)"

text \<open>
  The accesses of the completion check of a command that ended with status \<open>st\<close>: for
  generate, a poll of the generated-bits-valid bit; for the other commands, a poll of the
  command-request-done bit followed by one read of the command status register, whose
  status bit decides between \<open>OTCRYPTO_RECOV_ERR\<close> and \<open>OTCRYPTO_OK\<close>.
\<close>

definition completion_accesses :: "chip \<Rightarrow> entropy_csrng_cmd \<Rightarrow> status \<Rightarrow> trace \<Rightarrow> bool" where
  "completion_accesses c cmd st post =
     (if cmd_id cmd = kEntropyDrbgOpGenerate
      then st = OTCRYPTO_OK
           \<and> is_poll (kBaseCsrng c + REG_OFFSET c CSRNG_GENBITS_VLD)
                (BIT c CSRNG_GENBITS_VLD_GENBITS_VLD) post
      else post \<noteq> []
           \<and> is_poll (kBaseCsrng c + REG_OFFSET c CSRNG_INTR_STATE)
                (BIT c CSRNG_INTR_STATE_CS_CMD_REQ_DONE) (butlast post)
           \<and> (case last post of
                 Read32 a v \<Rightarrow>
                   a = kBaseCsrng c + REG_OFFSET c CSRNG_SW_CMD_STS
                   \<and> st = (if bitfield_bit32_read v (BIT c CSRNG_SW_CMD_STS_CMD_STS)
                           then OTCRYPTO_RECOV_ERR else OTCRYPTO_OK)
               | Write32 a v \<Rightarrow> False))"

text \<open>
  The bits of a register a field occupies, and a field that lies inside the 32 bits of
  its register.
\<close>

definition field_bits :: "bitfield_field32 \<Rightarrow> u32" where
  "field_bits f = push_bit (unat (findex f)) (fmask f)"

definition field_inside :: "bitfield_field32 \<Rightarrow> bool" where
  "field_inside f \<longleftrightarrow> drop_bit (unat (findex f)) (field_bits f) = fmask f"

text \<open>The value \<open>edn_configure\<close> writes to the control register of an EDN.\<close>

definition edn_ctrl_enable :: "chip \<Rightarrow> u32" where
  "edn_ctrl_enable c =
     bitfield_field32_write
       (bitfield_field32_write 0 (FIELD c EDN_CTRL_EDN_ENABLE) (kMultiBitBool4True c))
       (FIELD c EDN_CTRL_AUTO_REQ_MODE) (kMultiBitBool4True c)"

text \<open>The hardware lets every poll of a bit end, whatever happened before.\<close>

definition poll_ends :: "hw \<Rightarrow> u32 \<Rightarrow> u32 \<Rightarrow> bool" where
  "poll_ends h a b \<longleftrightarrow> (\<forall>tr. poll_bit32 h a b tr \<noteq> None)"

subsection \<open>A sample chip and a sample device\<close>

text \<open>
  One assignment of the generated constants, used for the concrete runs below: four
  blocks 64 KiB apart, four-bit multi-bit booleans in fields at nibble boundaries,
  16-bit thresholds in the low half of their registers.
\<close>

fun sample_offset :: "reg_name \<Rightarrow> u32" where
  "sample_offset CSRNG_INTR_STATE = 0x00"
| "sample_offset CSRNG_CTRL = 0x14"
| "sample_offset CSRNG_CMD_REQ = 0x18"
| "sample_offset CSRNG_SW_CMD_STS = 0x1c"
| "sample_offset CSRNG_GENBITS_VLD = 0x20"
| "sample_offset CSRNG_GENBITS = 0x24"
| "sample_offset CSRNG_MAIN_SM_STATE = 0x4c"
| "sample_offset EDN_CTRL = 0x14"
| "sample_offset EDN_SW_CMD_REQ = 0x20"
| "sample_offset EDN_SW_CMD_STS = 0x24"
| "sample_offset EDN_RESEED_CMD = 0x28"
| "sample_offset EDN_GENERATE_CMD = 0x2c"
| "sample_offset EDN_MAX_NUM_REQS_BETWEEN_RESEEDS = 0x30"
| "sample_offset ENTROPY_SRC_MODULE_ENABLE = 0x20"
| "sample_offset ENTROPY_SRC_CONF = 0x24"
| "sample_offset ENTROPY_SRC_ENTROPY_CONTROL = 0x28"
| "sample_offset ENTROPY_SRC_HEALTH_TEST_WINDOWS = 0x30"
| "sample_offset ENTROPY_SRC_ALERT_THRESHOLD = 0xa0"
| "sample_offset (THRESHOLDS REPCNT) = 0x34"
| "sample_offset (THRESHOLDS REPCNTS) = 0x38"
| "sample_offset (THRESHOLDS ADAPTP_HI) = 0x3c"
| "sample_offset (THRESHOLDS ADAPTP_LO) = 0x40"
| "sample_offset (THRESHOLDS BUCKET) = 0x44"
| "sample_offset (THRESHOLDS MARKOV_HI) = 0x48"
| "sample_offset (THRESHOLDS MARKOV_LO) = 0x4c"
| "sample_offset (THRESHOLDS EXTHT_HI) = 0x50"
| "sample_offset (THRESHOLDS EXTHT_LO) = 0x54"

fun sample_resval :: "reg_name \<Rightarrow> u32" where
  "sample_resval CSRNG_CTRL = 0x999"
| "sample_resval EDN_CTRL = 0x9999"
| "sample_resval ENTROPY_SRC_MODULE_ENABLE = 0x9"
| "sample_resval ENTROPY_SRC_CONF = 0x909099"
| "sample_resval ENTROPY_SRC_ENTROPY_CONTROL = 0x99"
| "sample_resval ENTROPY_SRC_HEALTH_TEST_WINDOWS = 0x600200"
| "sample_resval ENTROPY_SRC_ALERT_THRESHOLD = 0xfffd0002"
| "sample_resval (THRESHOLDS ADAPTP_LO) = 0"
| "sample_resval (THRESHOLDS MARKOV_LO) = 0"
| "sample_resval (THRESHOLDS EXTHT_LO) = 0"
| "sample_resval (THRESHOLDS t) = 0xffffffff"
| "sample_resval r = 0"

fun sample_field :: "field_name \<Rightarrow> bitfield_field32" where
  "sample_field CSRNG_CTRL_ENABLE = \<lparr>fmask = 0xf, findex = 0\<rparr>"
| "sample_field CSRNG_CTRL_SW_APP_ENABLE = \<lparr>fmask = 0xf, findex = 4\<rparr>"
| "sample_field CSRNG_CTRL_READ_INT_STATE = \<lparr>fmask = 0xf, findex = 8\<rparr>"
| "sample_field EDN_CTRL_EDN_ENABLE = \<lparr>fmask = 0xf, findex = 0\<rparr>"
| "sample_field EDN_CTRL_AUTO_REQ_MODE = \<lparr>fmask = 0xf, findex = 8\<rparr>"
| "sample_field EDN_CTRL_CMD_FIFO_RST = \<lparr>fmask = 0xf, findex = 12\<rparr>"
| "sample_field ENTROPY_SRC_ENTROPY_CONTROL_ES_ROUTE = \<lparr>fmask = 0xf, findex = 0\<rparr>"
| "sample_field ENTROPY_SRC_ENTROPY_CONTROL_ES_TYPE = \<lparr>fmask = 0xf, findex = 4\<rparr>"
| "sample_field ENTROPY_SRC_CONF_FIPS_ENABLE = \<lparr>fmask = 0xf, findex = 0\<rparr>"
| "sample_field ENTROPY_SRC_CONF_ENTROPY_DATA_REG_ENABLE = \<lparr>fmask = 0xf, findex = 4\<rparr>"
| "sample_field ENTROPY_SRC_CONF_THRESHOLD_SCOPE = \<lparr>fmask = 0xf, findex = 12\<rparr>"
| "sample_field ENTROPY_SRC_CONF_RNG_BIT_ENABLE = \<lparr>fmask = 0xf, findex = 20\<rparr>"
| "sample_field ENTROPY_SRC_CONF_RNG_BIT_SEL = \<lparr>fmask = 0x3, findex = 24\<rparr>"
| "sample_field ENTROPY_SRC_HEALTH_TEST_WINDOWS_FIPS_WINDOW = \<lparr>fmask = 0xffff, findex = 0\<rparr>"
| "sample_field ENTROPY_SRC_ALERT_THRESHOLD_ALERT_THRESHOLD = \<lparr>fmask = 0xffff, findex = 0\<rparr>"
| "sample_field ENTROPY_SRC_ALERT_THRESHOLD_ALERT_THRESHOLD_INV =
     \<lparr>fmask = 0xffff, findex = 16\<rparr>"
| "sample_field (THRESHOLDS_FIPS_THRESH t) = \<lparr>fmask = 0xffff, findex = 0\<rparr>"

fun sample_bit :: "bit_name \<Rightarrow> u32" where
  "sample_bit CSRNG_SW_CMD_STS_CMD_RDY = 0"
| "sample_bit CSRNG_SW_CMD_STS_CMD_STS = 1"
| "sample_bit CSRNG_INTR_STATE_CS_CMD_REQ_DONE = 0"
| "sample_bit CSRNG_GENBITS_VLD_GENBITS_VLD = 0"
| "sample_bit CSRNG_GENBITS_VLD_GENBITS_FIPS = 1"
| "sample_bit EDN_SW_CMD_STS_CMD_RDY = 0"
| "sample_bit EDN_SW_CMD_STS_CMD_STS = 1"

definition sample_chip :: chip where
  "sample_chip =
     \<lparr>kBaseCsrng = 0x41150000,
      kBaseEntropySrc = 0x41160000,
      kBaseEdn0 = 0x41170000,
      kBaseEdn1 = 0x41180000,
      REG_OFFSET = sample_offset,
      REG_RESVAL = sample_resval,
      FIELD = sample_field,
      BIT = sample_bit,
      kMultiBitBool4True = 0x6,
      kMultiBitBool4False = 0x9,
      kHardenedBoolTrue = 0x739,
      kHardenedBoolFalse = 0x1d4\<rparr>"

text \<open>
  A device that is always ready: the CSRNG state machine is idle, every ready, done and
  valid bit is set, no error bit is set, GENBITS yields 0, 1, 2, ... on successive
  reads, and every other register returns the value last written to it (0 before the
  first write).
\<close>

definition sample_hw :: hw where
  "sample_hw tr a =
     (if a = 0x4115004c then 0x4e
      else if a = 0x4115001c then 1
      else if a = 0x41150000 then 1
      else if a = 0x41150020 then 3
      else if a = 0x41150024 then of_nat (length (reads_of 0x41150024 tr))
      else if a = 0x41170024 \<or> a = 0x41180024 then 1
      else (case last_write a tr of None \<Rightarrow> 0 | Some v \<Rightarrow> v))"

subsection \<open>What the entropy source check expects\<close>

text \<open>
  The check of the entropy source as the spec words it: it re-reads module-enable, the
  FIPS-enable and RNG-bit-enable bits, the type and route bits, the window size, the
  alert-threshold value-and-inverse pair and the nine thresholds, and fails with a
  recoverable error on the first mismatch. \<open>es_expected\<close> lists the registers in that
  order, each with the test its value has to pass; \<open>verify_reads\<close> reads a list of
  registers until a value fails its test; \<open>verified\<close> recognises the accesses of such
  a run that ended with a given status.
\<close>

definition alert_threshold_reg :: "chip \<Rightarrow> entropy_src_config \<Rightarrow> u32" where
  "alert_threshold_reg c config =
     bitfield_field32_write
       (bitfield_field32_write 0 (FIELD c ENTROPY_SRC_ALERT_THRESHOLD_ALERT_THRESHOLD)
          (ucast (alert_threshold config)))
       (FIELD c ENTROPY_SRC_ALERT_THRESHOLD_ALERT_THRESHOLD_INV)
       (NOT (ucast (alert_threshold config)))"

definition fips_thresholds :: "entropy_src_config \<Rightarrow> (thresh_name \<times> u32) list" where
  "fips_thresholds config =
     [(REPCNT, ucast (repcnt_threshold config)),
      (REPCNTS, ucast (repcnts_threshold config)),
      (ADAPTP_HI, ucast (adaptp_hi_threshold config)),
      (ADAPTP_LO, ucast (adaptp_lo_threshold config)),
      (BUCKET, ucast (bucket_threshold config)),
      (MARKOV_HI, ucast (markov_hi_threshold config)),
      (MARKOV_LO, ucast (markov_lo_threshold config)),
      (EXTHT_HI, ucast (extht_hi_threshold config)),
      (EXTHT_LO, ucast (extht_lo_threshold config))]"

definition es_expected :: "chip \<Rightarrow> entropy_src_config \<Rightarrow> (u32 \<times> (u32 \<Rightarrow> bool)) list" where
  "es_expected c config =
     [(kBaseEntropySrc c + REG_OFFSET c ENTROPY_SRC_MODULE_ENABLE,
         \<lambda>v. v = kMultiBitBool4True c),
      (kBaseEntropySrc c + REG_OFFSET c ENTROPY_SRC_CONF,
         \<lambda>v. bitfield_field32_read v (FIELD c ENTROPY_SRC_CONF_FIPS_ENABLE)
                = kMultiBitBool4True c
              \<and> bitfield_field32_read v (FIELD c ENTROPY_SRC_CONF_RNG_BIT_ENABLE)
                = kMultiBitBool4False c),
      (kBaseEntropySrc c + REG_OFFSET c ENTROPY_SRC_ENTROPY_CONTROL,
         \<lambda>v. bitfield_field32_read v (FIELD c ENTROPY_SRC_ENTROPY_CONTROL_ES_TYPE)
                = kMultiBitBool4False c
              \<and> bitfield_field32_read v (FIELD c ENTROPY_SRC_ENTROPY_CONTROL_ES_ROUTE)
                = kMultiBitBool4False c),
      (kBaseEntropySrc c + REG_OFFSET c ENTROPY_SRC_HEALTH_TEST_WINDOWS,
         \<lambda>v. bitfield_field32_read v (FIELD c ENTROPY_SRC_HEALTH_TEST_WINDOWS_FIPS_WINDOW)
                = ucast (fips_test_window_size config)),
      (kBaseEntropySrc c + REG_OFFSET c ENTROPY_SRC_ALERT_THRESHOLD,
         \<lambda>v. v = alert_threshold_reg c config)]
     @ map (\<lambda>(name, exp).
              (kBaseEntropySrc c + REG_OFFSET c (THRESHOLDS name),
               \<lambda>v. bitfield_field32_read v (FIELD c (THRESHOLDS_FIPS_THRESH name)) = exp))
         (fips_thresholds config)"

fun verify_reads :: "hw \<Rightarrow> (u32 \<times> (u32 \<Rightarrow> bool)) list \<Rightarrow> trace \<Rightarrow> status \<times> trace" where
  "verify_reads h [] tr = (OTCRYPTO_OK, tr)"
| "verify_reads h ((a, ok) # rest) tr =
     (case abs_mmio_read32 h a tr of
        (v, tr') \<Rightarrow> if ok v then verify_reads h rest tr' else (OTCRYPTO_RECOV_ERR, tr'))"

fun verified :: "(u32 \<times> (u32 \<Rightarrow> bool)) list \<Rightarrow> status \<Rightarrow> trace \<Rightarrow> bool" where
  "verified [] st ext = (st = OTCRYPTO_OK \<and> ext = [])"
| "verified ((a, ok) # rest) st [] = False"
| "verified ((a, ok) # rest) st (e # es) =
     (case e of
        Read32 a' v \<Rightarrow>
          a' = a \<and> (if ok v then verified rest st es else st = OTCRYPTO_RECOV_ERR \<and> es = [])
      | Write32 a' v \<Rightarrow> False)"

text \<open>Every register of the list was read and passed its test.\<close>

definition all_match :: "(u32 \<times> (u32 \<Rightarrow> bool)) list \<Rightarrow> trace \<Rightarrow> bool" where
  "all_match xs ext \<longleftrightarrow>
     list_all2 (\<lambda>x e. case e of Read32 a v \<Rightarrow> a = fst x \<and> snd x v | Write32 a v \<Rightarrow> False)
       xs ext"

subsection \<open>The accesses of stopping and configuring\<close>

text \<open>
  The accesses of \<open>entropy_complex_stop_all\<close>, given the values \<open>v0\<close> and \<open>v1\<close> read
  from the control registers of EDN0 and EDN1; the writes of \<open>entropy_src_configure\<close>;
  the value \<open>csrng_configure\<close> writes; and the registers \<open>edn_configure\<close> writes to.
\<close>

definition stop_all_accesses :: "chip \<Rightarrow> u32 \<Rightarrow> u32 \<Rightarrow> trace" where
  "stop_all_accesses c v0 v1 =
     [Read32 (kBaseEdn0 c + REG_OFFSET c EDN_CTRL) v0,
      Write32 (kBaseEdn0 c + REG_OFFSET c EDN_CTRL)
        (bitfield_field32_write v0 (FIELD c EDN_CTRL_CMD_FIFO_RST) (kMultiBitBool4True c)),
      Write32 (kBaseEdn0 c + REG_OFFSET c EDN_CTRL) (REG_RESVAL c EDN_CTRL),
      Read32 (kBaseEdn1 c + REG_OFFSET c EDN_CTRL) v1,
      Write32 (kBaseEdn1 c + REG_OFFSET c EDN_CTRL)
        (bitfield_field32_write v1 (FIELD c EDN_CTRL_CMD_FIFO_RST) (kMultiBitBool4True c)),
      Write32 (kBaseEdn1 c + REG_OFFSET c EDN_CTRL) (REG_RESVAL c EDN_CTRL),
      Write32 (kBaseCsrng c + REG_OFFSET c CSRNG_CTRL) (REG_RESVAL c CSRNG_CTRL),
      Write32 (kBaseEntropySrc c + REG_OFFSET c ENTROPY_SRC_MODULE_ENABLE)
        (REG_RESVAL c ENTROPY_SRC_MODULE_ENABLE),
      Write32 (kBaseEntropySrc c + REG_OFFSET c ENTROPY_SRC_ENTROPY_CONTROL)
        (REG_RESVAL c ENTROPY_SRC_ENTROPY_CONTROL),
      Write32 (kBaseEntropySrc c + REG_OFFSET c ENTROPY_SRC_CONF)
        (REG_RESVAL c ENTROPY_SRC_CONF),
      Write32 (kBaseEntropySrc c + REG_OFFSET c ENTROPY_SRC_HEALTH_TEST_WINDOWS)
        (REG_RESVAL c ENTROPY_SRC_HEALTH_TEST_WINDOWS),
      Write32 (kBaseEntropySrc c + REG_OFFSET c ENTROPY_SRC_ALERT_THRESHOLD)
        (REG_RESVAL c ENTROPY_SRC_ALERT_THRESHOLD)]"

definition entropy_control_reg :: "chip \<Rightarrow> entropy_src_config \<Rightarrow> u32" where
  "entropy_control_reg c config =
     bitfield_field32_write
       (bitfield_field32_write 0 (FIELD c ENTROPY_SRC_ENTROPY_CONTROL_ES_ROUTE)
          (route_to_firmware config))
       (FIELD c ENTROPY_SRC_ENTROPY_CONTROL_ES_TYPE) (bypass_conditioner config)"

definition conf_reg :: "chip \<Rightarrow> entropy_src_config \<Rightarrow> u32" where
  "conf_reg c config =
     bitfield_field32_write
       (bitfield_field32_write
          (bitfield_field32_write
             (bitfield_field32_write
                (bitfield_field32_write 0 (FIELD c ENTROPY_SRC_CONF_FIPS_ENABLE)
                   (fips_enable config))
                (FIELD c ENTROPY_SRC_CONF_ENTROPY_DATA_REG_ENABLE) (route_to_firmware config))
             (FIELD c ENTROPY_SRC_CONF_THRESHOLD_SCOPE) (kMultiBitBool4False c))
          (FIELD c ENTROPY_SRC_CONF_RNG_BIT_ENABLE) (single_bit_mode config))
       (FIELD c ENTROPY_SRC_CONF_RNG_BIT_SEL) 0"

definition es_configure_writes :: "chip \<Rightarrow> entropy_src_config \<Rightarrow> trace" where
  "es_configure_writes c config =
     [Write32 (kBaseEntropySrc c + REG_OFFSET c ENTROPY_SRC_ENTROPY_CONTROL)
        (entropy_control_reg c config),
      Write32 (kBaseEntropySrc c + REG_OFFSET c ENTROPY_SRC_CONF) (conf_reg c config),
      Write32 (kBaseEntropySrc c + REG_OFFSET c ENTROPY_SRC_HEALTH_TEST_WINDOWS)
        (bitfield_field32_write (REG_RESVAL c ENTROPY_SRC_HEALTH_TEST_WINDOWS)
           (FIELD c ENTROPY_SRC_HEALTH_TEST_WINDOWS_FIPS_WINDOW)
           (ucast (fips_test_window_size config))),
      Write32 (kBaseEntropySrc c + REG_OFFSET c ENTROPY_SRC_ALERT_THRESHOLD)
        (alert_threshold_reg c config)]
     @ map (\<lambda>(name, v).
              Write32 (kBaseEntropySrc c + REG_OFFSET c (THRESHOLDS name))
                (bitfield_field32_write (REG_RESVAL c (THRESHOLDS name))
                   (FIELD c (THRESHOLDS_FIPS_THRESH name)) v))
         (fips_thresholds config)
     @ [Write32 (kBaseEntropySrc c + REG_OFFSET c ENTROPY_SRC_MODULE_ENABLE)
          (kMultiBitBool4True c)]"

definition csrng_ctrl_enable :: "chip \<Rightarrow> u32" where
  "csrng_ctrl_enable c =
     bitfield_field32_write
       (bitfield_field32_write
          (bitfield_field32_write 0 (FIELD c CSRNG_CTRL_ENABLE) (kMultiBitBool4True c))
          (FIELD c CSRNG_CTRL_SW_APP_ENABLE) (kMultiBitBool4True c))
       (FIELD c CSRNG_CTRL_READ_INT_STATE) (kMultiBitBool4True c)"

definition edn_regs :: "chip \<Rightarrow> u32 \<Rightarrow> u32 list" where
  "edn_regs c base =
     [base + REG_OFFSET c EDN_RESEED_CMD,
      base + REG_OFFSET c EDN_GENERATE_CMD,
      base + REG_OFFSET c EDN_MAX_NUM_REQS_BETWEEN_RESEEDS,
      base + REG_OFFSET c EDN_CTRL,
      base + REG_OFFSET c EDN_SW_CMD_REQ]"

text \<open>The addresses a trace writes to, in order.\<close>

definition write_addrs :: "trace \<Rightarrow> u32 list" where
  "write_addrs tr =
     concat (map (\<lambda>e. case e of Write32 a v \<Rightarrow> [a] | Read32 a v \<Rightarrow> []) tr)"


section \<open>Calls that only read\<close>

lemma writes_simps [simp]:
  "writes [] = []"
  "writes (tr @ tr') = writes tr @ writes tr'"
  "writes (Write32 a v # tr) = Write32 a v # writes tr"
  "writes (Read32 a v # tr) = writes tr"
  by (simp_all add: writes_def)

lemma reads_only_append [simp]: "reads_only tr (tr @ ext) \<longleftrightarrow> writes ext = []"
  by (simp add: reads_only_def performed_def)

lemma reads_onlyD: "reads_only tr tr' \<Longrightarrow> \<exists>ext. tr' = tr @ ext \<and> writes ext = []"
  unfolding reads_only_def performed_def
  by (metis append_take_drop_id)

lemma reads_only_refl [simp]: "reads_only tr tr"
  by (simp add: reads_only_def performed_def)

lemma reads_only_trans: "reads_only tr tr' \<Longrightarrow> reads_only tr' tr'' \<Longrightarrow> reads_only tr tr''"
  by (auto dest!: reads_onlyD)

lemma reads_only_writes: "reads_only tr tr' \<Longrightarrow> writes tr' = writes tr"
  by (auto dest!: reads_onlyD)

lemma read_ext: "abs_mmio_read32 h a tr = (v, tr') \<Longrightarrow> \<exists>ext. tr' = tr @ ext \<and> writes ext = []"
  by (auto simp: abs_mmio_read32_def)

lemma idle_tries_reads_only:
  "csrng_fsm_idle_wait_tries c h n tr = (st, tr') \<Longrightarrow> reads_only tr tr'"
proof (induction n arbitrary: tr)
  case 0
  then show ?case by simp
next
  case (Suc n)
  then show ?case
    by (fastforce split: prod.splits if_splits dest!: read_ext reads_onlyD)
qed

lemma idle_wait_reads_only:
  "csrng_fsm_idle_wait c h tr = (st, tr') \<Longrightarrow> reads_only tr tr'"
  unfolding csrng_fsm_idle_wait_def by (rule idle_tries_reads_only)

lemma poll_reads_only_aux:
  "poll_bit32 h a b tr = Some y \<Longrightarrow> reads_only tr (snd y)"
  apply (erule poll_bit32.raw_induct[rotated, where P="\<lambda>h a b tr y. reads_only tr (snd y)"])
  apply (fastforce split: prod.splits if_splits dest!: read_ext reads_onlyD)
  done

lemma poll_reads_only:
  "poll_bit32 h a b tr = Some (r, tr') \<Longrightarrow> reads_only tr tr'"
  using poll_reads_only_aux by fastforce

lemma verify_reads_only:
  "VERIFY_FIPS_THRESH c h xs tr = (st, tr') \<Longrightarrow> reads_only tr tr'"
proof (induction xs arbitrary: tr)
  case Nil
  then show ?case by simp
next
  case (Cons x xs)
  then show ?case
    by (cases x)
       (fastforce simp: Let_def split: prod.splits if_splits dest!: read_ext reads_onlyD)
qed

lemmas verify_ext = verify_reads_only [THEN reads_onlyD]

lemma es_check_reads_only:
  "entropy_src_check c h config tr = (st, tr') \<Longrightarrow> reads_only tr tr'"
  unfolding entropy_src_check_def Let_def
  by (auto split: prod.splits if_splits dest!: read_ext verify_ext)

lemma csrng_check_reads_only: "csrng_check c h tr = (st, tr') \<Longrightarrow> reads_only tr tr'"
  unfolding csrng_check_def Let_def
  by (auto split: prod.splits if_splits dest!: read_ext)

lemma edn_check_reads_only: "edn_check c h config tr = (st, tr') \<Longrightarrow> reads_only tr tr'"
  unfolding edn_check_def Let_def
  by (auto split: prod.splits if_splits dest!: read_ext)

lemma check_from_reads_only:
  "entropy_complex_check_from c h cs tr = (st, tr') \<Longrightarrow> reads_only tr tr'"
  unfolding entropy_complex_check_from_def Let_def
  by (auto split: prod.splits if_splits
      dest!: es_check_reads_only [THEN reads_onlyD] csrng_check_reads_only [THEN reads_onlyD]
        edn_check_reads_only [THEN reads_onlyD])

text \<open>
  C10. The check functions only read: \<open>entropy_src_check\<close>, \<open>csrng_check\<close>,
  \<open>edn_check\<close> and \<open>entropy_complex_check\<close> (over the source's table or any
  other) leave a trace that is the trace before the call followed by reads, for every
  device, every configuration and every outcome.
\<close>

theorem entropy_complex_check_reads_only:
  "reads_only tr (snd (entropy_src_check c h config tr))
   \<and> reads_only tr (snd (csrng_check c h tr))
   \<and> reads_only tr (snd (edn_check c h edn tr))
   \<and> reads_only tr (snd (entropy_complex_check_from c h configs tr))
   \<and> reads_only tr (snd (entropy_complex_check c h tr))"
  unfolding entropy_complex_check_def
  by (metis es_check_reads_only csrng_check_reads_only edn_check_reads_only
      check_from_reads_only prod.collapse)


theorem entropy_complex_check_reads_only_witness:
  "reads_only [] (snd (entropy_src_check sample_chip sample_hw
       (entropy_src (hd (kEntropyComplexConfigs sample_chip))) []))
   \<and> reads_only [] (snd (csrng_check sample_chip sample_hw []))
   \<and> reads_only [] (snd (edn_check sample_chip sample_hw
       (edn0 (hd (kEntropyComplexConfigs sample_chip))) []))
   \<and> reads_only [] (snd (entropy_complex_check_from sample_chip sample_hw
       (kEntropyComplexConfigs sample_chip) []))
   \<and> reads_only [] (snd (entropy_complex_check sample_chip sample_hw []))"
  by (rule entropy_complex_check_reads_only)

section \<open>Validation before a command is sent\<close>

lemma cmd_len_check:
  "(x AND NOT (fmask kAppCmdFieldCmdLen) \<noteq> 0) \<longleftrightarrow> 15 < (x::u32)"
proof -
  have m: "fmask kAppCmdFieldCmdLen = mask 4"
    by (simp add: kAppCmdFieldCmdLen_def mask_eq_exp_minus_1)
  have "x AND NOT (mask 4) = 0 \<longleftrightarrow> x AND mask 4 = x"
    by (auto simp: bit_eq_iff bit_simps)
  also have "\<dots> \<longleftrightarrow> x < 2 ^ 4"
    by (rule mask_eq_iff_w2p) (simp add: word_size)
  also have "\<dots> \<longleftrightarrow> \<not> 15 < x"
    by (simp add: word_less_nat_alt) arith
  finally show ?thesis unfolding m by simp
qed

lemma idle_tries_status:
  "fst (csrng_fsm_idle_wait_tries c h n tr) = OTCRYPTO_OK
   \<or> fst (csrng_fsm_idle_wait_tries c h n tr) = OTCRYPTO_RECOV_ERR"
  by (induction n arbitrary: tr) (auto split: prod.splits)

lemma idle_wait_idle:
  assumes "h tr (kBaseCsrng c + REG_OFFSET c CSRNG_MAIN_SM_STATE) = kCsrngMainSmIdle"
  shows "csrng_fsm_idle_wait c h tr =
         (OTCRYPTO_OK, tr @ [Read32 (kBaseCsrng c + REG_OFFSET c CSRNG_MAIN_SM_STATE)
                               kCsrngMainSmIdle])"
proof -
  have "csrng_fsm_idle_wait_tries c h (Suc m) tr =
         (OTCRYPTO_OK, tr @ [Read32 (kBaseCsrng c + REG_OFFSET c CSRNG_MAIN_SM_STATE)
                               kCsrngMainSmIdle])" for m
    using assms by (simp add: abs_mmio_read32_def)
  from this [of "kCsrngIdleNumTries - 1"] show ?thesis
    by (simp add: csrng_fsm_idle_wait_def kCsrngIdleNumTries_def)
qed

lemma poll_ready:
  "bitfield_bit32_read (h tr a) b
   \<Longrightarrow> poll_bit32 h a b tr = Some (h tr a, tr @ [Read32 a (h tr a)])"
  by (subst poll_bit32.simps) (simp add: abs_mmio_read32_def)

lemma poll_not_ready:
  "\<not> bitfield_bit32_read (h tr a) b
   \<Longrightarrow> poll_bit32 h a b tr = poll_bit32 h a b (tr @ [Read32 a (h tr a)])"
  by (subst poll_bit32.simps) (simp add: abs_mmio_read32_def)

lemma send_out_of_range:
  "kMaxGenerateSizeIn128BitBlocks < generate_len cmd
   \<Longrightarrow> csrng_send_app_cmd c h a cmd cc tr = Some (OUT_OF_RANGE, tr)"
  by (simp add: csrng_send_app_cmd_def)

lemma send_invalid:
  assumes glen: "generate_len cmd \<le> kMaxGenerateSizeIn128BitBlocks"
    and bad: "15 < seed_len cmd \<or> seed_misaligned cmd"
    and ready: "fst (csrng_fsm_idle_wait c h tr) = OTCRYPTO_OK \<longrightarrow>
      poll_bit32 h (kBaseCsrng c + REG_OFFSET c CSRNG_SW_CMD_STS)
        (BIT c CSRNG_SW_CMD_STS_CMD_RDY) (snd (csrng_fsm_idle_wait c h tr)) \<noteq> None"
  shows "\<exists>tr'. csrng_send_app_cmd c h a cmd cc tr = Some (OTCRYPTO_RECOV_ERR, tr')
           \<and> reads_only tr tr'"
proof -
  obtain st tr1 where idle: "csrng_fsm_idle_wait c h tr = (st, tr1)"
    by fastforce
  have r1: "reads_only tr tr1"
    using idle by (rule idle_wait_reads_only)
  show ?thesis
  proof (cases "st = OTCRYPTO_OK")
    case False
    then have "st = OTCRYPTO_RECOV_ERR"
      using idle idle_tries_status [of c h kCsrngIdleNumTries tr]
      by (simp add: csrng_fsm_idle_wait_def)
    then show ?thesis
      using glen idle r1 by (simp add: csrng_send_app_cmd_def)
  next
    case True
    then obtain reg tr2 where poll:
      "poll_bit32 h (kBaseCsrng c + REG_OFFSET c CSRNG_SW_CMD_STS)
         (BIT c CSRNG_SW_CMD_STS_CMD_RDY) tr1 = Some (reg, tr2)"
      using ready idle by fastforce
    have r2: "reads_only tr tr2"
      using r1 poll_reads_only [OF poll] by (rule reads_only_trans)
    have "csrng_send_app_cmd c h a cmd cc tr = Some (OTCRYPTO_RECOV_ERR, tr2)"
      using glen idle True poll bad
      by (auto simp: csrng_send_app_cmd_def seed_len_def seed_misaligned_def
            cmd_len_check Let_def split: option.splits)
    then show ?thesis using r2 by simp
  qed
qed

text \<open>
  C1. The validation of \<open>csrng_send_app_cmd\<close>. A generate length above 0x800 gives
  \<open>OUT_OF_RANGE\<close> with no register access at all. Otherwise a seed of more than 15
  words gives \<open>OTCRYPTO_RECOV_ERR\<close>, and otherwise a seed whose words are not
  word-aligned gives \<open>OTCRYPTO_RECOV_ERR\<close>; in both cases the call has only read
  registers. The two seed checks stand after the poll of the command-ready bit, so the
  call returns provided that poll ends (when the idle wait fails first the call returns
  \<open>OTCRYPTO_RECOV_ERR\<close> as well). The same holds for \<open>entropy_csrng_generate_start\<close>,
  \<open>entropy_csrng_instantiate\<close> and \<open>entropy_csrng_reseed\<close>, which pass their
  arguments on.
\<close>

theorem csrng_send_app_cmd_validation:
  assumes ready: "fst (csrng_fsm_idle_wait c h tr) = OTCRYPTO_OK \<longrightarrow>
      poll_bit32 h (kBaseCsrng c + REG_OFFSET c CSRNG_SW_CMD_STS)
        (BIT c CSRNG_SW_CMD_STS_CMD_RDY) (snd (csrng_fsm_idle_wait c h tr)) \<noteq> None"
  shows "(0x800 < generate_len cmd \<longrightarrow>
            csrng_send_app_cmd c h a cmd cc tr = Some (OUT_OF_RANGE, tr))
       \<and> (generate_len cmd \<le> 0x800 \<and> 15 < seed_len cmd \<longrightarrow>
            (\<exists>tr'. csrng_send_app_cmd c h a cmd cc tr = Some (OTCRYPTO_RECOV_ERR, tr')
                   \<and> reads_only tr tr'))
       \<and> (generate_len cmd \<le> 0x800 \<and> seed_len cmd \<le> 15 \<and> seed_misaligned cmd \<longrightarrow>
            (\<exists>tr'. csrng_send_app_cmd c h a cmd cc tr = Some (OTCRYPTO_RECOV_ERR, tr')
                   \<and> reads_only tr tr'))
       \<and> (0x800 < ceil_div n 4 \<and> ceil_div n 4 < 2 ^ 32 \<longrightarrow>
            entropy_csrng_generate_start c h sm n tr = Some (OUT_OF_RANGE, tr))
       \<and> (15 < len s \<longrightarrow>
            (\<exists>tr'. entropy_csrng_instantiate c h d (Some s) tr = Some (OTCRYPTO_RECOV_ERR, tr')
                   \<and> reads_only tr tr')
            \<and> (\<exists>tr'. entropy_csrng_reseed c h d (Some s) tr = Some (OTCRYPTO_RECOV_ERR, tr')
                   \<and> reads_only tr tr')
            \<and> (ceil_div n 4 \<le> 0x800 \<longrightarrow>
                 (\<exists>tr'. entropy_csrng_generate_start c h (Some s) n tr
                          = Some (OTCRYPTO_RECOV_ERR, tr')
                        \<and> reads_only tr tr')))"
proof -
  have a: "0x800 < generate_len cmd \<Longrightarrow>
      csrng_send_app_cmd c h a cmd cc tr = Some (OUT_OF_RANGE, tr)" for cmd a cc
    using send_out_of_range [of cmd c h a cc tr]
    by (simp add: kMaxGenerateSizeIn128BitBlocks_def)
  have b: "generate_len cmd \<le> 0x800 \<Longrightarrow> 15 < seed_len cmd \<or> seed_misaligned cmd \<Longrightarrow>
      \<exists>tr'. csrng_send_app_cmd c h a cmd cc tr = Some (OTCRYPTO_RECOV_ERR, tr')
                   \<and> reads_only tr tr'" for cmd a cc
    using send_invalid [of cmd c h tr a cc] ready
    by (simp add: kMaxGenerateSizeIn128BitBlocks_def)
  have g1: "0x800 < ceil_div n 4 \<Longrightarrow> ceil_div n 4 < 2 ^ 32 \<Longrightarrow>
      (0x800 :: u32) < of_nat (ceil_div n 4)"
    by (simp add: word_less_nat_alt unat_of_nat)
  have g2: "ceil_div n 4 \<le> 0x800 \<Longrightarrow> (of_nat (ceil_div n 4) :: u32) \<le> 0x800"
    by (simp add: word_le_nat_alt unat_of_nat)
  show ?thesis
    using a b g1 g2
    by (simp add: entropy_csrng_generate_start_def entropy_csrng_instantiate_def
        entropy_csrng_reseed_def seed_len_def)
qed


lemma sample_chip_simps [simp]:
  "kBaseCsrng sample_chip = 0x41150000"
  "kBaseEntropySrc sample_chip = 0x41160000"
  "kBaseEdn0 sample_chip = 0x41170000"
  "kBaseEdn1 sample_chip = 0x41180000"
  "REG_OFFSET sample_chip = sample_offset"
  "REG_RESVAL sample_chip = sample_resval"
  "FIELD sample_chip = sample_field"
  "BIT sample_chip = sample_bit"
  "kMultiBitBool4True sample_chip = 0x6"
  "kMultiBitBool4False sample_chip = 0x9"
  "kHardenedBoolTrue sample_chip = 0x739"
  "kHardenedBoolFalse sample_chip = 0x1d4"
  by (simp_all add: sample_chip_def)

lemmas bitfield_defs =
  bitfield_field32_read_def bitfield_field32_write_def bitfield_bit32_read_def
  bitfield_bit32_write_def bitfield_bit32_to_field32_def

lemma sample_ready:
  "fst (csrng_fsm_idle_wait sample_chip sample_hw []) = OTCRYPTO_OK \<and>
   poll_bit32 sample_hw (kBaseCsrng sample_chip + REG_OFFSET sample_chip CSRNG_SW_CMD_STS)
     (BIT sample_chip CSRNG_SW_CMD_STS_CMD_RDY)
     (snd (csrng_fsm_idle_wait sample_chip sample_hw [])) \<noteq> None"
  by (simp add: idle_wait_idle poll_ready sample_hw_def kCsrngMainSmIdle_def bitfield_defs)

theorem csrng_send_app_cmd_validation_witness:
  "csrng_send_app_cmd sample_chip sample_hw 0x41150018
     \<lparr>cmd_id = kEntropyDrbgOpGenerate, disable_trng_input = 0, seed_material = None,
      generate_len = 0x801\<rparr> True [] = Some (OUT_OF_RANGE, [])
   \<and> (\<exists>tr'. csrng_send_app_cmd sample_chip sample_hw 0x41150018
         \<lparr>cmd_id = kEntropyDrbgOpInstantiate, disable_trng_input = 0,
          seed_material = Some \<lparr>len = 16, data_ptr = 0x10000000, data = (\<lambda>i. 0)\<rparr>,
          generate_len = 0\<rparr> True [] = Some (OTCRYPTO_RECOV_ERR, tr')
       \<and> reads_only [] tr')
   \<and> (\<exists>tr'. csrng_send_app_cmd sample_chip sample_hw 0x41150018
         \<lparr>cmd_id = kEntropyDrbgOpInstantiate, disable_trng_input = 0,
          seed_material = Some \<lparr>len = 1, data_ptr = 0x10000002, data = (\<lambda>i. 0)\<rparr>,
          generate_len = 0\<rparr> True [] = Some (OTCRYPTO_RECOV_ERR, tr')
       \<and> reads_only [] tr')"
proof -
  note v = csrng_send_app_cmd_validation [where c = sample_chip and h = sample_hw and tr = "[]"
      and a = "0x41150018" and cc = True and n = 0 and s = "\<lparr>len = 0, data_ptr = 0, data = (\<lambda>i. 0)\<rparr>"]
  have r: "fst (csrng_fsm_idle_wait sample_chip sample_hw []) = OTCRYPTO_OK \<longrightarrow>
      poll_bit32 sample_hw (kBaseCsrng sample_chip + REG_OFFSET sample_chip CSRNG_SW_CMD_STS)
        (BIT sample_chip CSRNG_SW_CMD_STS_CMD_RDY)
        (snd (csrng_fsm_idle_wait sample_chip sample_hw [])) \<noteq> None"
    using sample_ready by simp
  have 1: "csrng_send_app_cmd sample_chip sample_hw 0x41150018
     \<lparr>cmd_id = kEntropyDrbgOpGenerate, disable_trng_input = 0, seed_material = None,
      generate_len = 0x801\<rparr> True [] = Some (OUT_OF_RANGE, [])"
    using v [OF r, where cmd = "\<lparr>cmd_id = kEntropyDrbgOpGenerate, disable_trng_input = 0,
      seed_material = None, generate_len = 0x801\<rparr>"]
    by simp
  have 2: "\<exists>tr'. csrng_send_app_cmd sample_chip sample_hw 0x41150018
         \<lparr>cmd_id = kEntropyDrbgOpInstantiate, disable_trng_input = 0,
          seed_material = Some \<lparr>len = 16, data_ptr = 0x10000000, data = (\<lambda>i. 0)\<rparr>,
          generate_len = 0\<rparr> True [] = Some (OTCRYPTO_RECOV_ERR, tr')
       \<and> reads_only [] tr'"
    using v [OF r, where cmd = "\<lparr>cmd_id = kEntropyDrbgOpInstantiate, disable_trng_input = 0,
          seed_material = Some \<lparr>len = 16, data_ptr = 0x10000000, data = (\<lambda>i. 0)\<rparr>,
          generate_len = 0\<rparr>"]
    by (simp add: seed_len_def)
  have 3: "\<exists>tr'. csrng_send_app_cmd sample_chip sample_hw 0x41150018
         \<lparr>cmd_id = kEntropyDrbgOpInstantiate, disable_trng_input = 0,
          seed_material = Some \<lparr>len = 1, data_ptr = 0x10000002, data = (\<lambda>i. 0)\<rparr>,
          generate_len = 0\<rparr> True [] = Some (OTCRYPTO_RECOV_ERR, tr')
       \<and> reads_only [] tr'"
    using v [OF r, where cmd = "\<lparr>cmd_id = kEntropyDrbgOpInstantiate, disable_trng_input = 0,
          seed_material = Some \<lparr>len = 1, data_ptr = 0x10000002, data = (\<lambda>i. 0)\<rparr>,
          generate_len = 0\<rparr>"]
    by (simp add: seed_len_def seed_misaligned_def misalignment32_of_def)
  from 1 2 3 show ?thesis by blast
qed

section \<open>The accesses of a poll and of a command\<close>

lemma reads_until_Cons:
  "reads_until a P es \<Longrightarrow> \<not> P v \<Longrightarrow> reads_until a P (Read32 a v # es)"
  by (cases es) auto

lemma reads_until_writes: "reads_until a P es \<Longrightarrow> writes es = []"
  by (induction a P es rule: reads_until.induct) (auto split: access.splits)

lemma poll_is_poll_aux:
  "poll_bit32 h a b tr = Some y \<Longrightarrow>
     \<exists>ext. snd y = tr @ ext \<and> is_poll a b ext \<and> last ext = Read32 a (fst y)"
  apply (erule poll_bit32.raw_induct[rotated,
      where P="\<lambda>h a b tr y. \<exists>ext. snd y = tr @ ext \<and> is_poll a b ext \<and> last ext = Read32 a (fst y)"])
  subgoal premises prems for poll h a b tr y
  proof (cases "bitfield_bit32_read (h tr a) b")
    case True
    then have "y = (h tr a, tr @ [Read32 a (h tr a)])"
      using prems(2) by (simp add: abs_mmio_read32_def)
    then show ?thesis
      using True by (simp add: is_poll_def)
  next
    case False
    then have "poll h a b (tr @ [Read32 a (h tr a)]) = Some y"
      using prems(2) by (simp add: abs_mmio_read32_def)
    from prems(1) [OF this] obtain ext where e:
      "snd y = (tr @ [Read32 a (h tr a)]) @ ext"
      "is_poll a b ext"
      "last ext = Read32 a (fst y)"
      by blast
    then have "ext \<noteq> []" by (auto simp: is_poll_def)
    then show ?thesis
      using e False
      by (intro exI [where x = "Read32 a (h tr a) # ext"])
         (simp add: reads_until_Cons is_poll_def)
  qed
  done

lemma poll_is_poll:
  "poll_bit32 h a b tr = Some (r, tr') \<Longrightarrow>
     \<exists>ext. tr' = tr @ ext \<and> is_poll a b ext \<and> last ext = Read32 a r"
  using poll_is_poll_aux by fastforce

lemma idle_tries_is_idle_wait:
  "csrng_fsm_idle_wait_tries c h n tr = (OTCRYPTO_OK, tr') \<Longrightarrow>
     \<exists>ext. tr' = tr @ ext \<and> is_idle_wait c ext \<and> length ext \<le> n"
proof (induction n arbitrary: tr)
  case 0
  then show ?case by simp
next
  case (Suc n)
  let ?a = "kBaseCsrng c + REG_OFFSET c CSRNG_MAIN_SM_STATE"
  show ?case
  proof (cases "h tr ?a = kCsrngMainSmIdle")
    case True
    then show ?thesis
      using Suc.prems by (auto simp: abs_mmio_read32_def is_idle_wait_def)
  next
    case False
    then have "csrng_fsm_idle_wait_tries c h n (tr @ [Read32 ?a (h tr ?a)]) = (OTCRYPTO_OK, tr')"
      using Suc.prems by (simp add: abs_mmio_read32_def)
    from Suc.IH [OF this] obtain ext where
      "tr' = (tr @ [Read32 ?a (h tr ?a)]) @ ext" "is_idle_wait c ext" "length ext \<le> n"
      by blast
    then show ?thesis
      using False
      by (intro exI [where x = "Read32 ?a (h tr ?a) # ext"])
         (auto simp: is_idle_wait_def reads_until_Cons)
  qed
qed

lemma fold_write:
  "fold (\<lambda>i. abs_mmio_write32 a (f i)) xs tr = tr @ map (\<lambda>i. Write32 a (f i)) xs"
  by (induction xs arbitrary: tr) (auto simp: abs_mmio_write32_def)

lemma send_sent:
  assumes "generate_len cmd \<le> kMaxGenerateSizeIn128BitBlocks"
    and "seed_len cmd \<le> 15" and "\<not> seed_misaligned cmd"
    and "csrng_fsm_idle_wait c h tr = (OTCRYPTO_OK, tr1)"
    and "poll_bit32 h (kBaseCsrng c + REG_OFFSET c CSRNG_SW_CMD_STS)
           (BIT c CSRNG_SW_CMD_STS_CMD_RDY) tr1 = Some (reg, tr2)"
  shows "csrng_send_app_cmd c h a cmd cc tr =
           (if cc then csrng_cmd_completion c h cmd (tr2 @ cmd_writes c a cmd cc)
            else Some (OTCRYPTO_OK, tr2 @ cmd_writes c a cmd cc))"
  using assms
  by (auto simp: csrng_send_app_cmd_def Let_def cmd_len_check fold_write cmd_writes_def
        seed_words_def seed_len_def seed_misaligned_def abs_mmio_write32_def comp_def
        split: option.splits)

lemma send_cases:
  assumes "csrng_send_app_cmd c h a cmd cc tr = Some (st, tr')"
  obtains
    (range) "kMaxGenerateSizeIn128BitBlocks < generate_len cmd" "st = OUT_OF_RANGE" "tr' = tr"
  | (busy) "generate_len cmd \<le> kMaxGenerateSizeIn128BitBlocks" "st = OTCRYPTO_RECOV_ERR"
      "csrng_fsm_idle_wait c h tr = (OTCRYPTO_RECOV_ERR, tr')"
  | (invalid) tr1 reg where "generate_len cmd \<le> kMaxGenerateSizeIn128BitBlocks"
      "csrng_fsm_idle_wait c h tr = (OTCRYPTO_OK, tr1)"
      "poll_bit32 h (kBaseCsrng c + REG_OFFSET c CSRNG_SW_CMD_STS)
           (BIT c CSRNG_SW_CMD_STS_CMD_RDY) tr1 = Some (reg, tr')"
      "15 < seed_len cmd \<or> seed_misaligned cmd" "st = OTCRYPTO_RECOV_ERR"
  | (sent) tr1 reg tr2 where "generate_len cmd \<le> kMaxGenerateSizeIn128BitBlocks"
      "csrng_fsm_idle_wait c h tr = (OTCRYPTO_OK, tr1)"
      "poll_bit32 h (kBaseCsrng c + REG_OFFSET c CSRNG_SW_CMD_STS)
           (BIT c CSRNG_SW_CMD_STS_CMD_RDY) tr1 = Some (reg, tr2)"
      "seed_len cmd \<le> 15" "\<not> seed_misaligned cmd"
      "if cc then csrng_cmd_completion c h cmd (tr2 @ cmd_writes c a cmd cc) = Some (st, tr')
       else st = OTCRYPTO_OK \<and> tr' = tr2 @ cmd_writes c a cmd cc"
proof (cases "kMaxGenerateSizeIn128BitBlocks < generate_len cmd")
  case True
  then show ?thesis
    using assms range by (simp add: csrng_send_app_cmd_def)
next
  case g: False
  obtain st1 tr1 where idle: "csrng_fsm_idle_wait c h tr = (st1, tr1)"
    by fastforce
  show ?thesis
  proof (cases "st1 = OTCRYPTO_OK")
    case False
    then have "st1 = OTCRYPTO_RECOV_ERR"
      using idle idle_tries_status [of c h kCsrngIdleNumTries tr]
      by (simp add: csrng_fsm_idle_wait_def)
    then show ?thesis
      using assms g idle busy by (simp add: csrng_send_app_cmd_def)
  next
    case ok: True
    then obtain reg tr2 where poll:
      "poll_bit32 h (kBaseCsrng c + REG_OFFSET c CSRNG_SW_CMD_STS)
         (BIT c CSRNG_SW_CMD_STS_CMD_RDY) tr1 = Some (reg, tr2)"
      using assms g idle
      by (auto simp: csrng_send_app_cmd_def split: option.splits)
    show ?thesis
    proof (cases "15 < seed_len cmd \<or> seed_misaligned cmd")
      case True
      then have "csrng_send_app_cmd c h a cmd cc tr = Some (OTCRYPTO_RECOV_ERR, tr2)"
        using g idle ok poll True
        by (auto simp: csrng_send_app_cmd_def seed_len_def seed_misaligned_def
            cmd_len_check Let_def split: option.splits)
      then show ?thesis
        using assms invalid [of tr1 reg] g idle ok poll True by simp
    next
      case False
      then have v: "seed_len cmd \<le> 15" "\<not> seed_misaligned cmd" by auto
      have "csrng_send_app_cmd c h a cmd cc tr =
           (if cc then csrng_cmd_completion c h cmd (tr2 @ cmd_writes c a cmd cc)
            else Some (OTCRYPTO_OK, tr2 @ cmd_writes c a cmd cc))"
        using g idle ok poll v by (intro send_sent) auto
      then show ?thesis
        using assms sent [of tr1 reg tr2] g idle ok poll v by (auto split: if_splits)
    qed
  qed
qed

section \<open>Bit fields and the command header\<close>

lemma read_write_other:
  assumes "field_bits f AND field_bits g = 0"
  shows "bitfield_field32_read (bitfield_field32_write w g v) f = bitfield_field32_read w f"
proof (rule bit_word_eqI)
  fix k assume "k < LENGTH(32)"
  have d: "\<not> (bit (field_bits f) n \<and> bit (field_bits g) n)" for n
  proof -
    have "bit (field_bits f AND field_bits g) n = bit (0::u32) n"
      using assms by simp
    then show ?thesis by (simp add: bit_and_iff)
  qed
  show "bit (bitfield_field32_read (bitfield_field32_write w g v) f) k
        = bit (bitfield_field32_read w f) k"
    using d [of "unat (findex f) + k"] bit_imp_le_length [of w "unat (findex f) + k"]
    by (auto simp: bitfield_field32_read_def bitfield_field32_write_def field_bits_def bit_simps)
qed

lemma read_write_same:
  assumes "field_inside f"
  shows "bitfield_field32_read (bitfield_field32_write w f v) f = v AND fmask f"
proof (rule bit_word_eqI)
  fix k assume "k < LENGTH(32)"
  have d: "bit (fmask f) n \<Longrightarrow> unat (findex f) + n < 32" for n
    using assms bit_imp_le_length [of "fmask f" n]
    by (auto simp: field_inside_def field_bits_def bit_eq_iff bit_simps)
  show "bit (bitfield_field32_read (bitfield_field32_write w f v) f) k
        = bit (v AND fmask f) k"
    using d [of k]
    by (auto simp: bitfield_field32_read_def bitfield_field32_write_def bit_simps)
qed

lemma flag0_read:
  "bitfield_field32_read (app_cmd_header c cmd cmd_len) kAppCmdFieldFlag0 =
     (if disable_trng_input cmd = kHardenedBoolTrue c then kMultiBitBool4True c AND 0xf else 0)"
proof -
  have i: "field_inside kAppCmdFieldFlag0"
    by (simp add: field_inside_def field_bits_def kAppCmdFieldFlag0_def)
  have o: "field_bits kAppCmdFieldFlag0 AND field_bits kAppCmdFieldCmdId = 0"
    "field_bits kAppCmdFieldFlag0 AND field_bits kAppCmdFieldCmdLen = 0"
    "field_bits kAppCmdFieldFlag0 AND field_bits kAppCmdFieldGlen = 0"
    by (simp_all add: field_bits_def kAppCmdFieldFlag0_def kAppCmdFieldCmdId_def
        kAppCmdFieldCmdLen_def kAppCmdFieldGlen_def)
  have z: "bitfield_field32_read 0 kAppCmdFieldFlag0 = 0"
    by (simp add: bitfield_field32_read_def)
  have m: "fmask kAppCmdFieldFlag0 = 0xf"
    by (simp add: kAppCmdFieldFlag0_def)
  show ?thesis
    by (simp add: app_cmd_header_def Let_def launder32_def read_write_same [OF i]
        read_write_other [OF o(1)] read_write_other [OF o(2)] read_write_other [OF o(3)] z m)
qed

section \<open>What a call of csrng_send_app_cmd has done\<close>

lemma is_poll_writes: "is_poll a b es \<Longrightarrow> writes es = []"
  by (simp add: is_poll_def reads_until_writes)

lemma is_poll_nonempty: "is_poll a b es \<Longrightarrow> es \<noteq> []"
  by (auto simp: is_poll_def)

lemma is_idle_wait_writes: "is_idle_wait c es \<Longrightarrow> writes es = []"
  by (simp add: is_idle_wait_def reads_until_writes)

lemma idle_wait_is_idle_wait:
  "csrng_fsm_idle_wait c h tr = (OTCRYPTO_OK, tr') \<Longrightarrow>
     \<exists>w. tr' = tr @ w \<and> is_idle_wait c w \<and> length w \<le> kCsrngIdleNumTries"
  unfolding csrng_fsm_idle_wait_def by (rule idle_tries_is_idle_wait)

lemma completion_trace:
  assumes "csrng_cmd_completion c h cmd tr = Some (st, tr')"
  shows "\<exists>post. tr' = tr @ post \<and> completion_accesses c cmd st post"
proof (cases "cmd_id cmd = kEntropyDrbgOpGenerate")
  case True
  then obtain reg where
    "poll_bit32 h (kBaseCsrng c + REG_OFFSET c CSRNG_GENBITS_VLD)
       (BIT c CSRNG_GENBITS_VLD_GENBITS_VLD) tr = Some (reg, tr')" "st = OTCRYPTO_OK"
    using assms by (auto simp: csrng_cmd_completion_def split: option.splits)
  then show ?thesis
    using True poll_is_poll by (fastforce simp: completion_accesses_def)
next
  case False
  then obtain reg tr1 where p:
    "poll_bit32 h (kBaseCsrng c + REG_OFFSET c CSRNG_INTR_STATE)
       (BIT c CSRNG_INTR_STATE_CS_CMD_REQ_DONE) tr = Some (reg, tr1)"
    and r: "tr' = tr1 @ [Read32 (kBaseCsrng c + REG_OFFSET c CSRNG_SW_CMD_STS)
                          (h tr1 (kBaseCsrng c + REG_OFFSET c CSRNG_SW_CMD_STS))]"
      "st = (if bitfield_bit32_read (h tr1 (kBaseCsrng c + REG_OFFSET c CSRNG_SW_CMD_STS))
                  (BIT c CSRNG_SW_CMD_STS_CMD_STS)
             then OTCRYPTO_RECOV_ERR else OTCRYPTO_OK)"
    using assms
    by (auto simp: csrng_cmd_completion_def abs_mmio_read32_def split: option.splits if_splits)
  from poll_is_poll [OF p] obtain ext where
    "tr1 = tr @ ext" "is_poll (kBaseCsrng c + REG_OFFSET c CSRNG_INTR_STATE)
       (BIT c CSRNG_INTR_STATE_CS_CMD_REQ_DONE) ext"
    by blast
  then show ?thesis
    using False r
    by (intro exI [where x = "ext @ [Read32 (kBaseCsrng c + REG_OFFSET c CSRNG_SW_CMD_STS)
                          (h tr1 (kBaseCsrng c + REG_OFFSET c CSRNG_SW_CMD_STS))]"])
       (simp add: completion_accesses_def)
qed

lemma completion_accesses_writes: "completion_accesses c cmd st post \<Longrightarrow> writes post = []"
proof -
  assume a: "completion_accesses c cmd st post"
  show ?thesis
  proof (cases "cmd_id cmd = kEntropyDrbgOpGenerate")
    case True
    then show ?thesis using a by (auto simp: completion_accesses_def dest: is_poll_writes)
  next
    case False
    then have "post \<noteq> []" "writes (butlast post) = []" "\<exists>a v. last post = Read32 a v"
      using a by (auto simp: completion_accesses_def is_poll_writes split: access.splits)
    moreover have "post = butlast post @ [last post]"
      using \<open>post \<noteq> []\<close> by simp
    ultimately show ?thesis
      by (metis append_Nil2 writes_simps(1,2,4))
  qed
qed

text \<open>What a call of \<open>csrng_send_app_cmd\<close> that returned has done.\<close>

lemma send_trace:
  assumes "csrng_send_app_cmd c h a cmd cc tr = Some (st, tr')"
  shows "(reads_only tr tr' \<and> st \<noteq> OTCRYPTO_OK)
       \<or> (\<exists>w p post. tr' = tr @ w @ p @ cmd_writes c a cmd cc @ post
            \<and> is_idle_wait c w \<and> length w \<le> kCsrngIdleNumTries
            \<and> is_poll (kBaseCsrng c + REG_OFFSET c CSRNG_SW_CMD_STS)
                 (BIT c CSRNG_SW_CMD_STS_CMD_RDY) p
            \<and> (if cc then completion_accesses c cmd st post
                else st = OTCRYPTO_OK \<and> post = []))"
  using assms
proof (cases rule: send_cases)
  case range
  then show ?thesis by simp
next
  case busy
  then show ?thesis using idle_wait_reads_only by auto
next
  case (invalid tr1 reg)
  then show ?thesis
    using idle_wait_reads_only poll_reads_only reads_only_trans by (metis status.distinct(1))
next
  case (sent tr1 reg tr2)
  from idle_wait_is_idle_wait [OF sent(2)] obtain w where
    w: "tr1 = tr @ w" "is_idle_wait c w" "length w \<le> kCsrngIdleNumTries"
    by blast
  from poll_is_poll [OF sent(3)] obtain p where
    p: "tr2 = tr1 @ p" "is_poll (kBaseCsrng c + REG_OFFSET c CSRNG_SW_CMD_STS)
                 (BIT c CSRNG_SW_CMD_STS_CMD_RDY) p"
    by blast
  show ?thesis
  proof (cases cc)
    case True
    then have "csrng_cmd_completion c h cmd (tr2 @ cmd_writes c a cmd cc) = Some (st, tr')"
      using sent(6) by simp
    from completion_trace [OF this] obtain post where
      "tr' = (tr2 @ cmd_writes c a cmd cc) @ post" "completion_accesses c cmd st post"
      by blast
    then show ?thesis
      using w p True by auto
  next
    case False
    then show ?thesis
      using sent(6) w p by auto
  qed
qed

lemma performed_append [simp]: "performed tr (tr @ ext) = ext"
  by (simp add: performed_def)

lemma cmd_writes_writes [simp]: "writes (cmd_writes c a cmd cc) = cmd_writes c a cmd cc"
  by (simp add: cmd_writes_def writes_def)

lemma cmd_writes_nonempty [simp]: "cmd_writes c a cmd cc \<noteq> []"
  by (simp add: cmd_writes_def)

lemma send_writes:
  assumes "csrng_send_app_cmd c h a cmd cc tr = Some (st, tr')"
  shows "take (length tr) tr' = tr
       \<and> (writes (performed tr tr') = [] \<or> writes (performed tr tr') = cmd_writes c a cmd cc)"
  using send_trace [OF assms]
  by (auto dest!: reads_onlyD
      simp: is_idle_wait_writes is_poll_writes completion_accesses_writes split: if_splits)

lemma poll_endsD: "poll_ends h a b \<Longrightarrow> \<exists>r tr'. poll_bit32 h a b tr = Some (r, tr')"
  unfolding poll_ends_def by (metis not_None_eq surj_pair)



section \<open>The disable-TRNG flag of the command header\<close>

text \<open>
  C6. In the header \<open>csrng_send_app_cmd\<close> builds and writes, the flag0 field (mask 0xf at
  bit 8) holds the multi-bit true encoding when \<open>disable_trng_input\<close> is exactly
  \<open>kHardenedBoolTrue\<close> and 0 for every other value; the header is the first write to
  \<open>reg_address\<close> of a call that writes at all. The encoding \<open>kMultiBitBool4True\<close> is a
  parameter, taken to be a non-zero value of four bits.
\<close>

theorem app_cmd_header_flag0:
  assumes "kMultiBitBool4True c AND 0xf = kMultiBitBool4True c"
    and "kMultiBitBool4True c \<noteq> 0"
  shows "bitfield_field32_read (app_cmd_header c cmd cmd_len) kAppCmdFieldFlag0 =
           (if disable_trng_input cmd = kHardenedBoolTrue c then kMultiBitBool4True c else 0)
       \<and> (bitfield_field32_read (app_cmd_header c cmd cmd_len) kAppCmdFieldFlag0
            = kMultiBitBool4True c \<longleftrightarrow> disable_trng_input cmd = kHardenedBoolTrue c)
       \<and> (csrng_send_app_cmd c h a cmd cc tr = Some (st, tr')
            \<and> writes (performed tr tr') \<noteq> [] \<longrightarrow>
          writes (performed tr tr') =
            (if cc
             then [Write32 (kBaseCsrng c + REG_OFFSET c CSRNG_INTR_STATE)
                     (bitfield_bit32_write 0 (BIT c CSRNG_INTR_STATE_CS_CMD_REQ_DONE) True)]
             else [])
            @ Write32 a (app_cmd_header c cmd (seed_len cmd))
              # map (Write32 a) (seed_words cmd))"
  using assms send_writes [of c h a cmd cc tr st tr']
  by (auto simp: flag0_read cmd_writes_def)

theorem app_cmd_header_flag0_witness:
  "bitfield_field32_read
     (app_cmd_header sample_chip
        \<lparr>cmd_id = kEntropyDrbgOpInstantiate, disable_trng_input = 0x739,
         seed_material = None, generate_len = 0\<rparr> 0) kAppCmdFieldFlag0 = 6
   \<and> bitfield_field32_read
     (app_cmd_header sample_chip
        \<lparr>cmd_id = kEntropyDrbgOpInstantiate, disable_trng_input = 0x1d4,
         seed_material = None, generate_len = 0\<rparr> 0) kAppCmdFieldFlag0 = 0
   \<and> bitfield_field32_read
     (app_cmd_header sample_chip
        \<lparr>cmd_id = kEntropyDrbgOpGenerate, disable_trng_input = 0x738,
         seed_material = None, generate_len = 0x7ff\<rparr> 15) kAppCmdFieldFlag0 = 0"
proof -
  have a: "kMultiBitBool4True sample_chip AND 0xf = kMultiBitBool4True sample_chip"
    and b: "kMultiBitBool4True sample_chip \<noteq> 0"
    by simp_all
  note t = app_cmd_header_flag0 [OF a b, THEN conjunct1]
  show ?thesis
    using t [of "\<lparr>cmd_id = kEntropyDrbgOpInstantiate, disable_trng_input = 0x739,
         seed_material = None, generate_len = 0\<rparr>" 0]
      t [of "\<lparr>cmd_id = kEntropyDrbgOpInstantiate, disable_trng_input = 0x1d4,
         seed_material = None, generate_len = 0\<rparr>" 0]
      t [of "\<lparr>cmd_id = kEntropyDrbgOpGenerate, disable_trng_input = 0x738,
         seed_material = None, generate_len = 0x7ff\<rparr>" 15]
    by simp
qed

lemma poll_ends_ready: "(\<And>tr. bitfield_bit32_read (h tr a) b) \<Longrightarrow> poll_ends h a b"
  by (simp add: poll_ends_def poll_ready)

lemma sample_poll_ends:
  "poll_ends sample_hw 0x4115001c 0"
  "poll_ends sample_hw 0x41150000 0"
  "poll_ends sample_hw 0x41150020 0"
  "poll_ends sample_hw 0x41170024 0"
  "poll_ends sample_hw 0x41180024 0"
  by (rule poll_ends_ready; simp add: sample_hw_def bitfield_defs)+

lemma sample_instantiate:
  "csrng_send_app_cmd sample_chip sample_hw 0x41150018
     \<lparr>cmd_id = kEntropyDrbgOpInstantiate, disable_trng_input = 0x739,
      seed_material = Some \<lparr>len = 2, data_ptr = 0x10000000, data = (\<lambda>i. of_nat i + 7)\<rparr>,
      generate_len = 0\<rparr> True [] =
   Some (OTCRYPTO_OK,
     [Read32 0x4115004c 0x4e, Read32 0x4115001c 1, Write32 0x41150000 1,
      Write32 0x41150018 0x621, Write32 0x41150018 7, Write32 0x41150018 8,
      Read32 0x41150000 1, Read32 0x4115001c 1])"
  by (simp add: csrng_send_app_cmd_def csrng_cmd_completion_def idle_wait_idle poll_ready
      sample_hw_def kCsrngMainSmIdle_def kMaxGenerateSizeIn128BitBlocks_def bitfield_defs
      abs_mmio_read32_def abs_mmio_write32_def app_cmd_header_def launder32_def
      misalignment32_of_def kAppCmdFieldFlag0_def kAppCmdFieldCmdId_def
      kAppCmdFieldCmdLen_def kAppCmdFieldGlen_def Let_def upt_rec)

section \<open>Completion of a command\<close>



section \<open>The idle wait\<close>

lemma send_ok_trace:
  assumes "csrng_send_app_cmd c h a cmd False tr = Some (OTCRYPTO_OK, tr')"
  shows "\<exists>w p. tr' = tr @ w @ p @ cmd_writes c a cmd False
            \<and> is_idle_wait c w
            \<and> is_poll (kBaseCsrng c + REG_OFFSET c CSRNG_SW_CMD_STS)
                 (BIT c CSRNG_SW_CMD_STS_CMD_RDY) p"
  using send_trace [OF assms] by auto

lemma edn_ready_trace:
  assumes "edn_ready_block c h base tr = Some (st, tr')"
  shows "\<exists>p. tr' = tr @ p
           \<and> is_poll (base + REG_OFFSET c EDN_SW_CMD_STS) (BIT c EDN_SW_CMD_STS_CMD_RDY) p"
  using assms poll_is_poll [of h "base + REG_OFFSET c EDN_SW_CMD_STS"
      "BIT c EDN_SW_CMD_STS_CMD_RDY" tr]
  by (auto simp: edn_ready_block_def split: option.splits if_splits)

lemma edn_configure_ok_trace:
  assumes "edn_configure c h config tr = Some (OTCRYPTO_OK, tr')"
  shows "\<exists>w1 p1 w2 p2 r1 w3 p3 r2.
      tr' = tr @ w1 @ p1
              @ cmd_writes c (base_address config + REG_OFFSET c EDN_RESEED_CMD)
                  (reseed config) False
              @ w2 @ p2
              @ cmd_writes c (base_address config + REG_OFFSET c EDN_GENERATE_CMD)
                  (generate config) False
              @ [Write32 (base_address config + REG_OFFSET c EDN_MAX_NUM_REQS_BETWEEN_RESEEDS)
                   (reseed_interval config),
                 Write32 (base_address config + REG_OFFSET c EDN_CTRL) (edn_ctrl_enable c)]
              @ r1 @ w3 @ p3
              @ cmd_writes c (base_address config + REG_OFFSET c EDN_SW_CMD_REQ)
                  (instantiate config) False
              @ r2
      \<and> is_idle_wait c w1 \<and> is_idle_wait c w2 \<and> is_idle_wait c w3
      \<and> is_poll (kBaseCsrng c + REG_OFFSET c CSRNG_SW_CMD_STS)
           (BIT c CSRNG_SW_CMD_STS_CMD_RDY) p1
      \<and> is_poll (kBaseCsrng c + REG_OFFSET c CSRNG_SW_CMD_STS)
           (BIT c CSRNG_SW_CMD_STS_CMD_RDY) p2
      \<and> is_poll (kBaseCsrng c + REG_OFFSET c CSRNG_SW_CMD_STS)
           (BIT c CSRNG_SW_CMD_STS_CMD_RDY) p3
      \<and> is_poll (base_address config + REG_OFFSET c EDN_SW_CMD_STS)
           (BIT c EDN_SW_CMD_STS_CMD_RDY) r1
      \<and> is_poll (base_address config + REG_OFFSET c EDN_SW_CMD_STS)
           (BIT c EDN_SW_CMD_STS_CMD_RDY) r2"
proof -
  let ?b = "base_address config"
  from assms obtain tr1 tr2 tr5 tr6 where
    s1: "csrng_send_app_cmd c h (?b + REG_OFFSET c EDN_RESEED_CMD) (reseed config) False tr
          = Some (OTCRYPTO_OK, tr1)"
    and s2: "csrng_send_app_cmd c h (?b + REG_OFFSET c EDN_GENERATE_CMD) (generate config)
          False tr1 = Some (OTCRYPTO_OK, tr2)"
    and s5: "edn_ready_block c h ?b
          (tr2 @ [Write32 (?b + REG_OFFSET c EDN_MAX_NUM_REQS_BETWEEN_RESEEDS)
                   (reseed_interval config),
                  Write32 (?b + REG_OFFSET c EDN_CTRL) (edn_ctrl_enable c)])
          = Some (OTCRYPTO_OK, tr5)"
    and s6: "csrng_send_app_cmd c h (?b + REG_OFFSET c EDN_SW_CMD_REQ) (instantiate config)
          False tr5 = Some (OTCRYPTO_OK, tr6)"
    and s7: "edn_ready_block c h ?b tr6 = Some (OTCRYPTO_OK, tr')"
    by (auto simp: edn_configure_def Let_def abs_mmio_write32_def edn_ctrl_enable_def
        split: option.splits if_splits)
  from send_ok_trace [OF s1] send_ok_trace [OF s2] edn_ready_trace [OF s5]
    send_ok_trace [OF s6] edn_ready_trace [OF s7]
  show ?thesis
    by (elim exE conjE) (simp, blast)
qed


lemmas sample_eval =
  csrng_send_app_cmd_def csrng_cmd_completion_def idle_wait_idle poll_ready sample_hw_def
  kCsrngMainSmIdle_def kMaxGenerateSizeIn128BitBlocks_def bitfield_defs abs_mmio_read32_def
  abs_mmio_write32_def app_cmd_header_def launder32_def misalignment32_of_def
  kAppCmdFieldFlag0_def kAppCmdFieldCmdId_def kAppCmdFieldCmdLen_def kAppCmdFieldGlen_def
  Let_def upt_rec edn_configure_def edn_ready_block_def kEntropyComplexConfigs_def
  last_write_def reads_of_def

lemma sample_edn0:
  "edn_configure sample_chip sample_hw (edn0 (hd (kEntropyComplexConfigs sample_chip))) [] =
     Some (OTCRYPTO_OK,
       [Read32 0x4115004c 0x4e, Read32 0x4115001c 1, Write32 0x41170028 2,
        Read32 0x4115004c 0x4e, Read32 0x4115001c 1, Write32 0x4117002c 0x8003,
        Write32 0x41170030 32, Write32 0x41170014 0x606, Read32 0x41170024 1,
        Read32 0x4115004c 0x4e, Read32 0x4115001c 1, Write32 0x41170020 1,
        Read32 0x41170024 1])"
  by (simp add: sample_eval)

text \<open>
  C5, as the spec has it, fails: \<open>edn_configure\<close> relays its three commands through
  \<open>csrng_send_app_cmd\<close>, which waits for the CSRNG main state machine to be idle
  whatever register it is about to write. On the sample device configuring EDN0 reads
  the main state register three times, once before each command.
\<close>

theorem edn_configure_idle_wait_counterexample:
  "edn_configure sample_chip sample_hw (edn0 (hd (kEntropyComplexConfigs sample_chip))) [] =
     Some (OTCRYPTO_OK,
       [Read32 0x4115004c 0x4e, Read32 0x4115001c 1, Write32 0x41170028 2,
        Read32 0x4115004c 0x4e, Read32 0x4115001c 1, Write32 0x4117002c 0x8003,
        Write32 0x41170030 32, Write32 0x41170014 0x606, Read32 0x41170024 1,
        Read32 0x4115004c 0x4e, Read32 0x4115001c 1, Write32 0x41170020 1,
        Read32 0x41170024 1])
   \<and> kBaseCsrng sample_chip + REG_OFFSET sample_chip CSRNG_MAIN_SM_STATE = 0x4115004c
   \<and> reads_of 0x4115004c
       [Read32 0x4115004c 0x4e, Read32 0x4115001c 1, Write32 0x41170028 2,
        Read32 0x4115004c 0x4e, Read32 0x4115001c 1, Write32 0x4117002c 0x8003,
        Write32 0x41170030 32, Write32 0x41170014 0x606, Read32 0x41170024 1,
        Read32 0x4115004c 0x4e, Read32 0x4115001c 1, Write32 0x41170020 1,
        Read32 0x41170024 1] = [0x4e, 0x4e, 0x4e]"
  by (simp add: sample_edn0 reads_of_def)

text \<open>
  C5, amended. Every call of \<open>csrng_send_app_cmd\<close> that writes anything has first waited
  for the idle state, within \<open>kCsrngIdleNumTries\<close> reads, whatever the register it
  writes to and whether or not completion is tracked. A successful \<open>edn_configure\<close>
  accordingly consists of: idle wait, ready poll, reseed command; idle wait, ready poll,
  generate command; the reseed interval and the control register; the EDN ready poll;
  idle wait, ready poll, instantiate command; the EDN ready poll.
\<close>

theorem idle_wait_before_every_command:
  "(csrng_send_app_cmd c h a cmd cc tr = Some (st, tr') \<and> writes (performed tr tr') \<noteq> []
      \<longrightarrow> (\<exists>w rest. tr' = tr @ w @ rest \<and> is_idle_wait c w
                     \<and> length w \<le> kCsrngIdleNumTries))
   \<and> (edn_configure c h config tr = Some (OTCRYPTO_OK, tr'')
      \<longrightarrow> (\<exists>w1 p1 w2 p2 r1 w3 p3 r2.
      tr'' = tr @ w1 @ p1
              @ cmd_writes c (base_address config + REG_OFFSET c EDN_RESEED_CMD)
                  (reseed config) False
              @ w2 @ p2
              @ cmd_writes c (base_address config + REG_OFFSET c EDN_GENERATE_CMD)
                  (generate config) False
              @ [Write32 (base_address config + REG_OFFSET c EDN_MAX_NUM_REQS_BETWEEN_RESEEDS)
                   (reseed_interval config),
                 Write32 (base_address config + REG_OFFSET c EDN_CTRL) (edn_ctrl_enable c)]
              @ r1 @ w3 @ p3
              @ cmd_writes c (base_address config + REG_OFFSET c EDN_SW_CMD_REQ)
                  (instantiate config) False
              @ r2
      \<and> is_idle_wait c w1 \<and> is_idle_wait c w2 \<and> is_idle_wait c w3
      \<and> is_poll (kBaseCsrng c + REG_OFFSET c CSRNG_SW_CMD_STS)
           (BIT c CSRNG_SW_CMD_STS_CMD_RDY) p1
      \<and> is_poll (kBaseCsrng c + REG_OFFSET c CSRNG_SW_CMD_STS)
           (BIT c CSRNG_SW_CMD_STS_CMD_RDY) p2
      \<and> is_poll (kBaseCsrng c + REG_OFFSET c CSRNG_SW_CMD_STS)
           (BIT c CSRNG_SW_CMD_STS_CMD_RDY) p3
      \<and> is_poll (base_address config + REG_OFFSET c EDN_SW_CMD_STS)
           (BIT c EDN_SW_CMD_STS_CMD_RDY) r1
      \<and> is_poll (base_address config + REG_OFFSET c EDN_SW_CMD_STS)
           (BIT c EDN_SW_CMD_STS_CMD_RDY) r2))"
proof (intro conjI impI)
  assume s: "csrng_send_app_cmd c h a cmd cc tr = Some (st, tr')
      \<and> writes (performed tr tr') \<noteq> []"
  then have "\<not> reads_only tr tr'"
    by (auto simp: reads_only_def)
  with send_trace [of c h a cmd cc tr st tr'] s
  show "\<exists>w rest. tr' = tr @ w @ rest \<and> is_idle_wait c w \<and> length w \<le> kCsrngIdleNumTries"
    by blast
next
  assume "edn_configure c h config tr = Some (OTCRYPTO_OK, tr'')"
  then show "\<exists>w1 p1 w2 p2 r1 w3 p3 r2.
      tr'' = tr @ w1 @ p1
              @ cmd_writes c (base_address config + REG_OFFSET c EDN_RESEED_CMD)
                  (reseed config) False
              @ w2 @ p2
              @ cmd_writes c (base_address config + REG_OFFSET c EDN_GENERATE_CMD)
                  (generate config) False
              @ [Write32 (base_address config + REG_OFFSET c EDN_MAX_NUM_REQS_BETWEEN_RESEEDS)
                   (reseed_interval config),
                 Write32 (base_address config + REG_OFFSET c EDN_CTRL) (edn_ctrl_enable c)]
              @ r1 @ w3 @ p3
              @ cmd_writes c (base_address config + REG_OFFSET c EDN_SW_CMD_REQ)
                  (instantiate config) False
              @ r2
      \<and> is_idle_wait c w1 \<and> is_idle_wait c w2 \<and> is_idle_wait c w3
      \<and> is_poll (kBaseCsrng c + REG_OFFSET c CSRNG_SW_CMD_STS)
           (BIT c CSRNG_SW_CMD_STS_CMD_RDY) p1
      \<and> is_poll (kBaseCsrng c + REG_OFFSET c CSRNG_SW_CMD_STS)
           (BIT c CSRNG_SW_CMD_STS_CMD_RDY) p2
      \<and> is_poll (kBaseCsrng c + REG_OFFSET c CSRNG_SW_CMD_STS)
           (BIT c CSRNG_SW_CMD_STS_CMD_RDY) p3
      \<and> is_poll (base_address config + REG_OFFSET c EDN_SW_CMD_STS)
           (BIT c EDN_SW_CMD_STS_CMD_RDY) r1
      \<and> is_poll (base_address config + REG_OFFSET c EDN_SW_CMD_STS)
           (BIT c EDN_SW_CMD_STS_CMD_RDY) r2"
    by (rule edn_configure_ok_trace)
qed

theorem idle_wait_before_every_command_witness:
  "(\<exists>w rest.
      [Read32 0x4115004c 0x4e, Read32 0x4115001c 1, Write32 0x41150000 1,
       Write32 0x41150018 0x621, Write32 0x41150018 7, Write32 0x41150018 8,
       Read32 0x41150000 1, Read32 0x4115001c 1] = [] @ w @ rest
      \<and> is_idle_wait sample_chip w \<and> length w \<le> kCsrngIdleNumTries)
   \<and> (\<exists>w1 p1 w2 p2 r1 w3 p3 r2.
       [Read32 0x4115004c 0x4e, Read32 0x4115001c 1, Write32 0x41170028 2,
        Read32 0x4115004c 0x4e, Read32 0x4115001c 1, Write32 0x4117002c 0x8003,
        Write32 0x41170030 32, Write32 0x41170014 0x606, Read32 0x41170024 1,
        Read32 0x4115004c 0x4e, Read32 0x4115001c 1, Write32 0x41170020 1,
        Read32 0x41170024 1]
       = [] @ w1 @ p1 @ [Write32 0x41170028 2] @ w2 @ p2 @ [Write32 0x4117002c 0x8003]
            @ [Write32 0x41170030 32, Write32 0x41170014 0x606] @ r1 @ w3 @ p3
            @ [Write32 0x41170020 1] @ r2
       \<and> is_idle_wait sample_chip w1 \<and> is_idle_wait sample_chip w2
       \<and> is_idle_wait sample_chip w3)"
proof -
  let ?cmd = "\<lparr>cmd_id = kEntropyDrbgOpInstantiate, disable_trng_input = 0x739,
      seed_material = Some \<lparr>len = 2, data_ptr = 0x10000000, data = (\<lambda>i. of_nat i + 7)\<rparr>,
      generate_len = 0\<rparr>"
  let ?t1 = "[Read32 0x4115004c 0x4e, Read32 0x4115001c 1, Write32 0x41150000 1,
       Write32 0x41150018 0x621, Write32 0x41150018 7, Write32 0x41150018 8,
       Read32 0x41150000 1, Read32 0x4115001c 1]"
  let ?t2 = "[Read32 0x4115004c 0x4e, Read32 0x4115001c 1, Write32 0x41170028 2,
        Read32 0x4115004c 0x4e, Read32 0x4115001c 1, Write32 0x4117002c 0x8003,
        Write32 0x41170030 32, Write32 0x41170014 0x606, Read32 0x41170024 1,
        Read32 0x4115004c 0x4e, Read32 0x4115001c 1, Write32 0x41170020 1,
        Read32 0x41170024 1]"
  note t = idle_wait_before_every_command [of sample_chip sample_hw "0x41150018" ?cmd True
      "[]" OTCRYPTO_OK ?t1 "edn0 (hd (kEntropyComplexConfigs sample_chip))" ?t2]
  have w: "writes (performed [] ?t1) \<noteq> []"
    by (simp add: performed_def)
  have c: "cmd_writes sample_chip a
             \<lparr>cmd_id = i, disable_trng_input = 0x1d4, seed_material = None, generate_len = g\<rparr>
             False
           = [Write32 a (app_cmd_header sample_chip
               \<lparr>cmd_id = i, disable_trng_input = 0x1d4, seed_material = None,
                generate_len = g\<rparr> 0)]" for a i g
    by (simp add: cmd_writes_def seed_words_def seed_len_def)
  have e: "edn_ctrl_enable sample_chip = 0x606"
    by (simp add: edn_ctrl_enable_def bitfield_defs)
  show ?thesis
    using t sample_instantiate sample_edn0 w
    by (simp add: c e kEntropyComplexConfigs_def app_cmd_header_def launder32_def
        bitfield_defs kAppCmdFieldFlag0_def kAppCmdFieldCmdId_def kAppCmdFieldCmdLen_def
        kAppCmdFieldGlen_def Let_def) blast
qed

section \<open>The block loop of entropy_csrng_generate_data_get\<close>

lemma reads_of_simps [simp]:
  "reads_of a [] = []"
  "reads_of a (xs @ ys) = reads_of a xs @ reads_of a ys"
  "reads_of a (Read32 a' v # xs) = (if a' = a then v # reads_of a xs else reads_of a xs)"
  "reads_of a (Write32 a' v # xs) = reads_of a xs"
  by (simp_all add: reads_of_def)

lemma reads_until_reads_of_other:
  "reads_until a P es \<Longrightarrow> a \<noteq> a' \<Longrightarrow> reads_of a' es = []"
  by (induction a P es rule: reads_until.induct) (auto split: access.splits)

lemma is_poll_reads_of_other: "is_poll a b es \<Longrightarrow> a \<noteq> a' \<Longrightarrow> reads_of a' es = []"
  unfolding is_poll_def by (rule reads_until_reads_of_other)

lemma upt_4: "[0..<kEntropyCsrngBitsBufferNumWords] = [0, 1, 2, 3]"
  by (simp add: kEntropyCsrngBitsBufferNumWords_def upt_rec)

lemma block_fold:
  assumes "fold (genbits_word_get c h n b) [0..<kEntropyCsrngBitsBufferNumWords] (buf, tr)
           = (buf', tr')"
  shows "\<exists>w0 w1 w2 w3.
           tr' = tr @ map (Read32 (kBaseCsrng c + REG_OFFSET c CSRNG_GENBITS)) [w0, w1, w2, w3]
         \<and> (\<forall>j. j < 4 \<and> 4 * b + j < n \<longrightarrow> buf' (4 * b + j) = [w0, w1, w2, w3] ! (3 - j))
         \<and> (\<forall>i. i < 4 * b \<or> 4 * b + 4 \<le> i \<or> n \<le> i \<longrightarrow> buf' i = buf i)"
proof -
  let ?g = "kBaseCsrng c + REG_OFFSET c CSRNG_GENBITS"
  define w0 where "w0 = h tr ?g"
  define t1 where "t1 = tr @ [Read32 ?g w0]"
  define w1 where "w1 = h t1 ?g"
  define t2 where "t2 = t1 @ [Read32 ?g w1]"
  define w2 where "w2 = h t2 ?g"
  define t3 where "t3 = t2 @ [Read32 ?g w2]"
  define w3 where "w3 = h t3 ?g"
  define b0 where "b0 = (if 4 * b + 3 < n then buf(4 * b + 3 := w0) else buf)"
  define b1 where "b1 = (if 4 * b + 2 < n then b0(4 * b + 2 := w1) else b0)"
  define b2 where "b2 = (if 4 * b + 1 < n then b1(4 * b + 1 := w2) else b1)"
  define b3 where "b3 = (if 4 * b < n then b2(4 * b := w3) else b2)"
  have s0: "genbits_word_get c h n b 0 (buf, tr) = (b0, t1)"
    by (simp add: genbits_word_get_def abs_mmio_read32_def kEntropyCsrngBitsBufferNumWords_def
        w0_def t1_def b0_def ac_simps)
  have s1: "genbits_word_get c h n b (Suc 0) (b0, t1) = (b1, t2)"
    by (simp add: genbits_word_get_def abs_mmio_read32_def kEntropyCsrngBitsBufferNumWords_def
        w1_def t2_def b1_def ac_simps)
  have s2: "genbits_word_get c h n b 2 (b1, t2) = (b2, t3)"
    by (simp add: genbits_word_get_def abs_mmio_read32_def kEntropyCsrngBitsBufferNumWords_def
        w2_def t3_def b2_def ac_simps)
  have s3: "genbits_word_get c h n b 3 (b2, t3) = (b3, t3 @ [Read32 ?g w3])"
    by (simp add: genbits_word_get_def abs_mmio_read32_def kEntropyCsrngBitsBufferNumWords_def
        w3_def b3_def ac_simps)
  have r: "buf' = b3" "tr' = t3 @ [Read32 ?g w3]"
    using assms by (simp_all add: upt_4 s0 s1 s2 s3)
  have tr: "tr' = tr @ map (Read32 ?g) [w0, w1, w2, w3]"
    by (simp add: r t3_def t2_def t1_def)
  have st: "\<forall>j. j < 4 \<and> 4 * b + j < n \<longrightarrow> buf' (4 * b + j) = [w0, w1, w2, w3] ! (3 - j)"
  proof (intro allI impI)
    fix j assume "j < 4 \<and> 4 * b + j < n"
    then consider "j = 0" "4 * b < n" | "j = 1" "4 * b + 1 < n" | "j = 2" "4 * b + 2 < n"
      | "j = 3" "4 * b + 3 < n"
      by (auto simp: less_Suc_eq numeral_eq_Suc)
    then show "buf' (4 * b + j) = [w0, w1, w2, w3] ! (3 - j)"
      by cases (simp_all add: r b3_def b2_def b1_def b0_def)
  qed
  have fr: "\<forall>i. i < 4 * b \<or> 4 * b + 4 \<le> i \<or> n \<le> i \<longrightarrow> buf' i = buf i"
    by (auto simp: r b3_def b2_def b1_def b0_def)
  from tr st fr show ?thesis by blast
qed


lemma blocks_trace:
  assumes ne: "kBaseCsrng c + REG_OFFSET c CSRNG_GENBITS_VLD
                 \<noteq> kBaseCsrng c + REG_OFFSET c CSRNG_GENBITS"
  shows "entropy_csrng_generate_data_get_blocks c h n fips nblocks b res buf tr
           = Some (res', buf', tr') \<Longrightarrow>
    \<exists>ext. tr' = tr @ ext \<and> writes ext = []
      \<and> length (reads_of (kBaseCsrng c + REG_OFFSET c CSRNG_GENBITS) ext) = 4 * (nblocks - b)
      \<and> (\<forall>blk j. b \<le> blk \<and> blk < nblocks \<and> j < 4 \<and> 4 * blk + j < n \<longrightarrow>
            buf' (4 * blk + j)
              = reads_of (kBaseCsrng c + REG_OFFSET c CSRNG_GENBITS) ext
                  ! (4 * (blk - b) + 3 - j))
      \<and> (\<forall>i. i < 4 * b \<or> 4 * nblocks \<le> i \<or> n \<le> i \<longrightarrow> buf' i = buf i)"
proof (induction "nblocks - b" arbitrary: b res buf tr)
  case 0
  then have "\<not> b < nblocks" by simp
  then have "tr' = tr" "buf' = buf"
    using "0.prems" by (simp_all add: entropy_csrng_generate_data_get_blocks.simps)
  then show ?case
    using \<open>\<not> b < nblocks\<close> by (intro exI [where x = "[]"]) auto
next
  case (Suc d)
  let ?g = "kBaseCsrng c + REG_OFFSET c CSRNG_GENBITS"
  let ?v = "kBaseCsrng c + REG_OFFSET c CSRNG_GENBITS_VLD"
  from Suc.hyps(2) have lt: "b < nblocks" and d: "d = nblocks - (b + 1)"
    by simp_all
  from Suc.prems lt obtain reg tr1 where
    poll: "poll_bit32 h ?v (BIT c CSRNG_GENBITS_VLD_GENBITS_VLD) tr = Some (reg, tr1)"
    by (subst (asm) entropy_csrng_generate_data_get_blocks.simps)
       (auto split: option.splits)
  obtain buf1 tr2 where
    blk: "fold (genbits_word_get c h n b) [0..<kEntropyCsrngBitsBufferNumWords] (buf, tr1)
          = (buf1, tr2)"
    by fastforce
  obtain res1 where
    rec: "entropy_csrng_generate_data_get_blocks c h n fips nblocks (b + 1) res1 buf1 tr2
          = Some (res', buf', tr')"
    using Suc.prems lt poll blk
    by (subst (asm) entropy_csrng_generate_data_get_blocks.simps) (simp add: Let_def)
  from poll_is_poll [OF poll] obtain p where
    p: "tr1 = tr @ p" "is_poll ?v (BIT c CSRNG_GENBITS_VLD_GENBITS_VLD) p"
    by blast
  from block_fold [OF blk] obtain w0 w1 w2 w3 where
    w: "tr2 = tr1 @ map (Read32 ?g) [w0, w1, w2, w3]"
    and st: "\<And>j. j < 4 \<Longrightarrow> 4 * b + j < n \<Longrightarrow> buf1 (4 * b + j) = [w0, w1, w2, w3] ! (3 - j)"
    and fr: "\<And>i. i < 4 * b \<or> 4 * b + 4 \<le> i \<or> n \<le> i \<Longrightarrow> buf1 i = buf i"
    by blast
  from Suc.hyps(1) [OF d rec] obtain ext where
    e: "tr' = tr2 @ ext" "writes ext = []"
      "length (reads_of ?g ext) = 4 * (nblocks - (b + 1))"
    and st': "\<And>blk j. b + 1 \<le> blk \<Longrightarrow> blk < nblocks \<Longrightarrow> j < 4 \<Longrightarrow> 4 * blk + j < n \<Longrightarrow>
            buf' (4 * blk + j) = reads_of ?g ext ! (4 * (blk - (b + 1)) + 3 - j)"
    and fr': "\<And>i. i < 4 * (b + 1) \<or> 4 * nblocks \<le> i \<or> n \<le> i \<Longrightarrow> buf' i = buf1 i"
    by blast
  let ?ext = "p @ map (Read32 ?g) [w0, w1, w2, w3] @ ext"
  have g: "reads_of ?g ?ext = [w0, w1, w2, w3] @ reads_of ?g ext"
    using is_poll_reads_of_other [OF p(2) ne] by simp
  have 1: "tr' = tr @ ?ext"
    by (simp add: e w p)
  have 2: "writes ?ext = []"
    using is_poll_writes [OF p(2)] e by simp
  have 3: "length (reads_of ?g ?ext) = 4 * (nblocks - b)"
    using lt e(3) unfolding g by simp
  have 4: "buf' (4 * blk + j) = reads_of ?g ?ext ! (4 * (blk - b) + 3 - j)"
    if "b \<le> blk" "blk < nblocks" "j < 4" "4 * blk + j < n" for blk j
  proof (cases "blk = b")
    case True
    have "buf' (4 * b + j) = buf1 (4 * b + j)"
      using that by (intro fr') simp
    also have "\<dots> = [w0, w1, w2, w3] ! (3 - j)"
      using that True by (intro st) simp_all
    also have "\<dots> = ([w0, w1, w2, w3] @ reads_of ?g ext) ! (3 - j)"
    proof -
      have "3 - j < (4::nat)" by arith
      then have "3 - j < length [w0, w1, w2, w3]" by simp
      then show ?thesis by (rule nth_append_left [symmetric])
    qed
    also have "\<dots> = reads_of ?g ?ext ! (4 * (blk - b) + 3 - j)"
      using True unfolding g by simp
    finally show ?thesis using True by simp
  next
    case False
    then have gt: "b + 1 \<le> blk" using that by simp
    have "buf' (4 * blk + j) = reads_of ?g ext ! (4 * (blk - (b + 1)) + 3 - j)"
      using that gt by (intro st') simp_all
    also have "\<dots> = ([w0, w1, w2, w3] @ reads_of ?g ext)
                         ! (length [w0, w1, w2, w3] + (4 * (blk - (b + 1)) + 3 - j))"
      by (rule nth_append_length_plus [symmetric])
    also have "\<dots> = ([w0, w1, w2, w3] @ reads_of ?g ext) ! (4 + (4 * (blk - (b + 1)) + 3 - j))"
      by simp
    also have "\<dots> = reads_of ?g ?ext ! (4 + (4 * (blk - (b + 1)) + 3 - j))"
      unfolding g by simp
    also have "4 + (4 * (blk - (b + 1)) + 3 - j) = 4 * (blk - b) + 3 - j"
      using gt that by simp
    finally show ?thesis .
  qed
  have 5: "buf' i = buf i" if "i < 4 * b \<or> 4 * nblocks \<le> i \<or> n \<le> i" for i
  proof -
    have "buf' i = buf1 i"
      using that by (intro fr') auto
    also have "\<dots> = buf i"
      using that lt by (intro fr) auto
    finally show ?thesis .
  qed
  from 1 2 3 4 5 show ?case
    by (intro exI [where x = ?ext]) blast
qed

lemma blocks_returns:
  assumes "poll_ends h (kBaseCsrng c + REG_OFFSET c CSRNG_GENBITS_VLD)
             (BIT c CSRNG_GENBITS_VLD_GENBITS_VLD)"
  shows "entropy_csrng_generate_data_get_blocks c h n fips nblocks b res buf tr \<noteq> None"
proof (induction "nblocks - b" arbitrary: b res buf tr)
  case 0
  then show ?case
    by (simp add: entropy_csrng_generate_data_get_blocks.simps)
next
  case (Suc d)
  then have lt: "b < nblocks" and d: "d = nblocks - (b + 1)"
    by simp_all
  from poll_endsD [OF assms, of tr] obtain reg tr1 where
    "poll_bit32 h (kBaseCsrng c + REG_OFFSET c CSRNG_GENBITS_VLD)
       (BIT c CSRNG_GENBITS_VLD_GENBITS_VLD) tr = Some (reg, tr1)"
    by blast
  then show ?case
    using lt Suc.hyps(1) [OF d]
    by (subst entropy_csrng_generate_data_get_blocks.simps) (simp add: Let_def)
qed

section \<open>What entropy_csrng_generate_data_get reads and stores\<close>

lemma ceil_div_4: "n \<le> 4 * ceil_div n 4" "4 * ceil_div n 4 < n + 4"
  by (simp_all add: ceil_div_def)

lemma data_get_trace:
  assumes ne: "REG_OFFSET c CSRNG_GENBITS_VLD \<noteq> REG_OFFSET c CSRNG_GENBITS"
    and r: "entropy_csrng_generate_data_get c h buf n fips tr = Some (res, buf', tr')"
  shows "take (length tr) tr' = tr"
    and "writes (performed tr tr') = []"
    and "length (reads_of (kBaseCsrng c + REG_OFFSET c CSRNG_GENBITS) (performed tr tr'))
           = 4 * ceil_div n 4"
    and "\<And>blk j. j < 4 \<Longrightarrow> 4 * blk + j < n \<Longrightarrow>
           buf' (4 * blk + j)
             = reads_of (kBaseCsrng c + REG_OFFSET c CSRNG_GENBITS) (performed tr tr')
                 ! (4 * blk + 3 - j)"
    and "\<And>i. n \<le> i \<Longrightarrow> buf' i = buf i"
proof -
  let ?g = "kBaseCsrng c + REG_OFFSET c CSRNG_GENBITS"
  have ne': "kBaseCsrng c + REG_OFFSET c CSRNG_GENBITS_VLD \<noteq> ?g"
    using ne by simp
  from r have "entropy_csrng_generate_data_get_blocks c h n fips (ceil_div n 4) 0
                 OTCRYPTO_OK buf tr = Some (res, buf', tr')"
    by (simp add: entropy_csrng_generate_data_get_def)
  from blocks_trace [OF ne' this] obtain ext where
    e: "tr' = tr @ ext" "writes ext = []" "length (reads_of ?g ext) = 4 * (ceil_div n 4 - 0)"
    and st: "\<And>blk j. 0 \<le> blk \<and> blk < ceil_div n 4 \<and> j < 4 \<and> 4 * blk + j < n \<Longrightarrow>
            buf' (4 * blk + j) = reads_of ?g ext ! (4 * (blk - 0) + 3 - j)"
    and fr: "\<And>i. i < 4 * 0 \<or> 4 * ceil_div n 4 \<le> i \<or> n \<le> i \<Longrightarrow> buf' i = buf i"
    by blast
  show "take (length tr) tr' = tr" "writes (performed tr tr') = []"
    "length (reads_of ?g (performed tr tr')) = 4 * ceil_div n 4"
    using e by simp_all
  show "buf' i = buf i" if "n \<le> i" for i
    using fr [of i] that by simp
  show "buf' (4 * blk + j) = reads_of ?g (performed tr tr') ! (4 * blk + 3 - j)"
    if "j < 4" "4 * blk + j < n" for blk j
  proof -
    have "blk < ceil_div n 4"
      using that ceil_div_4(1) [of n] by simp
    then show ?thesis
      using st [of blk j] that e by simp
  qed
qed

lemma data_get_returns:
  "poll_ends h (kBaseCsrng c + REG_OFFSET c CSRNG_GENBITS_VLD)
     (BIT c CSRNG_GENBITS_VLD_GENBITS_VLD)
   \<Longrightarrow> entropy_csrng_generate_data_get c h buf n fips tr \<noteq> None"
  by (simp add: entropy_csrng_generate_data_get_def blocks_returns)

lemma sample_data_get:
  "entropy_csrng_generate_data_get sample_chip sample_hw (\<lambda>i. 0xff) 6 0x739 [] =
     Some (OTCRYPTO_OK,
       (\<lambda>i. 0xff)(3 := 0, 2 := 1, 1 := 2, 0 := 3, 5 := 6, 4 := 7),
       [Read32 0x41150020 3, Read32 0x41150024 0, Read32 0x41150024 1,
        Read32 0x41150024 2, Read32 0x41150024 3, Read32 0x41150020 3,
        Read32 0x41150024 4, Read32 0x41150024 5, Read32 0x41150024 6,
        Read32 0x41150024 7])"
  by (simp add: entropy_csrng_generate_data_get_def ceil_div_def
      entropy_csrng_generate_data_get_blocks.simps poll_ready sample_hw_def bitfield_defs
      genbits_word_get_def abs_mmio_read32_def kEntropyCsrngBitsBufferNumWords_def upt_rec
      Let_def)

section \<open>Word order and lengths of entropy_csrng_generate_data_get\<close>



text \<open>
  C4. Lengths. The call reads exactly \<open>4 * ceil_div n 4\<close> words from GENBITS and writes
  no register. The buffer is unchanged at every index from \<open>n\<close> on, and every index
  below \<open>n\<close> holds one of the words read; so when \<open>n\<close> is not a multiple of 4 the
  call reads more words than it stores, fewer than four more. The call returns when the
  hardware lets the polls of the valid bit end.
\<close>

theorem generate_data_get_lengths:
  assumes "REG_OFFSET c CSRNG_GENBITS_VLD \<noteq> REG_OFFSET c CSRNG_GENBITS"
  shows "(poll_ends h (kBaseCsrng c + REG_OFFSET c CSRNG_GENBITS_VLD)
            (BIT c CSRNG_GENBITS_VLD_GENBITS_VLD)
          \<longrightarrow> entropy_csrng_generate_data_get c h buf n fips_check tr \<noteq> None)
       \<and> (entropy_csrng_generate_data_get c h buf n fips_check tr = Some (res, buf', tr')
          \<longrightarrow> length (reads_of (kBaseCsrng c + REG_OFFSET c CSRNG_GENBITS) (performed tr tr'))
                 = 4 * ceil_div n 4
              \<and> n \<le> 4 * ceil_div n 4 \<and> 4 * ceil_div n 4 < n + 4
              \<and> (n mod 4 \<noteq> 0 \<longrightarrow> n < 4 * ceil_div n 4)
              \<and> take (length tr) tr' = tr
              \<and> writes (performed tr tr') = []
              \<and> (\<forall>i. n \<le> i \<longrightarrow> buf' i = buf i)
              \<and> (\<forall>i. i < n \<longrightarrow>
                    buf' i = reads_of (kBaseCsrng c + REG_OFFSET c CSRNG_GENBITS)
                               (performed tr tr') ! (4 * (i div 4) + 3 - i mod 4)))"
proof (intro conjI impI allI)
  assume "poll_ends h (kBaseCsrng c + REG_OFFSET c CSRNG_GENBITS_VLD)
            (BIT c CSRNG_GENBITS_VLD_GENBITS_VLD)"
  then show "entropy_csrng_generate_data_get c h buf n fips_check tr \<noteq> None"
    by (rule data_get_returns)
next
  show "n \<le> 4 * ceil_div n 4" "4 * ceil_div n 4 < n + 4"
    by (rule ceil_div_4)+
next
  assume "n mod 4 \<noteq> 0"
  then show "n < 4 * ceil_div n 4"
    by (simp add: ceil_div_def) presburger
next
  assume r: "entropy_csrng_generate_data_get c h buf n fips_check tr = Some (res, buf', tr')"
  note d = data_get_trace [OF assms r]
  show "length (reads_of (kBaseCsrng c + REG_OFFSET c CSRNG_GENBITS) (performed tr tr'))
                 = 4 * ceil_div n 4"
    "take (length tr) tr' = tr" "writes (performed tr tr') = []"
    by (rule d)+
  show "buf' i = buf i" if "n \<le> i" for i
    using that by (rule d(5))
  show "buf' i = reads_of (kBaseCsrng c + REG_OFFSET c CSRNG_GENBITS)
                               (performed tr tr') ! (4 * (i div 4) + 3 - i mod 4)"
    if "i < n" for i
    using d(4) [of "i mod 4" "i div 4"] that by simp
qed

theorem generate_data_get_lengths_witness:
  "entropy_csrng_generate_data_get sample_chip sample_hw (\<lambda>i. 0xff) 6 0x739 [] \<noteq> None
   \<and> length (reads_of 0x41150024
       [Read32 0x41150020 3, Read32 0x41150024 0, Read32 0x41150024 1,
        Read32 0x41150024 2, Read32 0x41150024 3, Read32 0x41150020 3,
        Read32 0x41150024 4, Read32 0x41150024 5, Read32 0x41150024 6,
        Read32 0x41150024 7]) = 8
   \<and> map ((\<lambda>i. 0xff)(3 := 0, 2 := 1, 1 := 2, 0 := 3, 5 := 6, 4 := 7)) [0, 1, 2, 3, 4, 5, 6, 7 :: nat]
       = [3, 2, 1, 0, 7, 6, 0xff, 0xff :: u32]"
proof -
  let ?T = "[Read32 0x41150020 3, Read32 0x41150024 0, Read32 0x41150024 1,
        Read32 0x41150024 2, Read32 0x41150024 3, Read32 0x41150020 3,
        Read32 0x41150024 4, Read32 0x41150024 5, Read32 0x41150024 6,
        Read32 0x41150024 7]"
  let ?B = "(\<lambda>i::nat. 0xff :: u32)(3 := 0, 2 := 1, 1 := 2, 0 := 3, 5 := 6, 4 := 7)"
  have ne: "REG_OFFSET sample_chip CSRNG_GENBITS_VLD \<noteq> REG_OFFSET sample_chip CSRNG_GENBITS"
    by simp
  note t = generate_data_get_lengths [OF ne, of sample_hw "\<lambda>i. 0xff" 6 "0x739" "[]"
      OTCRYPTO_OK ?B ?T]
  have pe: "poll_ends sample_hw (kBaseCsrng sample_chip + REG_OFFSET sample_chip CSRNG_GENBITS_VLD)
              (BIT sample_chip CSRNG_GENBITS_VLD_GENBITS_VLD)"
    using sample_poll_ends(3) by simp
  from t pe have 1: "entropy_csrng_generate_data_get sample_chip sample_hw (\<lambda>i. 0xff) 6 0x739 []
      \<noteq> None"
    by blast
  from t sample_data_get have 2:
    "length (reads_of (kBaseCsrng sample_chip + REG_OFFSET sample_chip CSRNG_GENBITS)
       (performed [] ?T)) = 4 * ceil_div 6 4"
    and 3: "\<And>i. 6 \<le> i \<Longrightarrow> ?B i = 0xff"
    by blast+
  from 2 have "length (reads_of 0x41150024 ?T) = 8"
    by (simp add: performed_def ceil_div_def)
  with 1 3 [of 6] 3 [of 7] show ?thesis
    by simp
qed

section \<open>The entropy source check as a run of verified reads\<close>

lemma verify_thresh_eq:
  "VERIFY_FIPS_THRESH c h xs tr =
     verify_reads h
       (map (\<lambda>(name, exp).
              (kBaseEntropySrc c + REG_OFFSET c (THRESHOLDS name),
               \<lambda>v. bitfield_field32_read v (FIELD c (THRESHOLDS_FIPS_THRESH name)) = exp)) xs)
       tr"
  by (induction xs arbitrary: tr) (auto simp: Let_def split: prod.splits)

lemma es_check_eq:
  assumes "fips_enable config = kMultiBitBool4True c"
    "bypass_conditioner config = kMultiBitBool4False c"
    "route_to_firmware config = kMultiBitBool4False c"
  shows "entropy_src_check c h config tr = verify_reads h (es_expected c config) tr"
  using assms
  unfolding entropy_src_check_def es_expected_def Let_def
    fips_thresholds_def [symmetric] alert_threshold_reg_def [symmetric]
  by (auto simp: verify_thresh_eq split: prod.splits)

lemma verify_reads_verified:
  "verify_reads h xs tr = (st, tr') \<Longrightarrow> \<exists>ext. tr' = tr @ ext \<and> verified xs st ext"
proof (induction xs arbitrary: tr)
  case Nil
  then show ?case by simp
next
  case (Cons x xs)
  obtain a ok where x: "x = (a, ok)" by (cases x)
  show ?case
  proof (cases "ok (h tr a)")
    case True
    then have "verify_reads h xs (tr @ [Read32 a (h tr a)]) = (st, tr')"
      using Cons.prems x by (simp add: abs_mmio_read32_def)
    from Cons.IH [OF this] obtain ext where
      "tr' = (tr @ [Read32 a (h tr a)]) @ ext" "verified xs st ext"
      by blast
    then show ?thesis
      using True x by (intro exI [where x = "Read32 a (h tr a) # ext"]) simp
  next
    case False
    then show ?thesis
      using Cons.prems x
      by (intro exI [where x = "[Read32 a (h tr a)]"]) (auto simp: abs_mmio_read32_def)
  qed
qed

lemma verified_status: "verified xs st ext \<Longrightarrow> st = OTCRYPTO_OK \<or> st = OTCRYPTO_RECOV_ERR"
  by (induction xs st ext rule: verified.induct) (auto split: access.splits if_splits)

lemma verified_ok_iff: "verified xs OTCRYPTO_OK ext \<longleftrightarrow> all_match xs ext"
  unfolding all_match_def
  by (induction xs OTCRYPTO_OK ext rule: verified.induct)
     (auto split: access.splits if_splits)

lemma verified_writes: "verified xs st ext \<Longrightarrow> writes ext = []"
  by (induction xs st ext rule: verified.induct) (auto split: access.splits if_splits)

section \<open>Outcomes of the entropy source check\<close>

lemma verified_unique: "verified xs st ext \<Longrightarrow> verified xs st' ext \<Longrightarrow> st = st'"
  by (induction xs st ext rule: verified.induct) (auto split: access.splits if_splits)

text \<open>
  C8. \<open>entropy_src_check\<close> returns \<open>OTCRYPTO_BAD_ARGS\<close> with no access for every
  configuration whose \<open>fips_enable\<close> is not the multi-bit true or whose
  \<open>bypass_conditioner\<close> or \<open>route_to_firmware\<close> is not the multi-bit false. For every
  other configuration it reads the fourteen registers of \<open>es_expected\<close> in order and
  stops at the first value that fails its test: the result is \<open>OTCRYPTO_OK\<close> exactly when
  all fourteen were read and passed, and \<open>OTCRYPTO_RECOV_ERR\<close> otherwise.
\<close>

theorem entropy_src_check_outcomes:
  assumes "entropy_src_check c h config tr = (st, tr')"
  shows "(fips_enable config \<noteq> kMultiBitBool4True c
            \<or> bypass_conditioner config \<noteq> kMultiBitBool4False c
            \<or> route_to_firmware config \<noteq> kMultiBitBool4False c
          \<longrightarrow> st = OTCRYPTO_BAD_ARGS \<and> tr' = tr)
       \<and> (fips_enable config = kMultiBitBool4True c
            \<and> bypass_conditioner config = kMultiBitBool4False c
            \<and> route_to_firmware config = kMultiBitBool4False c
          \<longrightarrow> (\<exists>ext. tr' = tr @ ext
                \<and> verified (es_expected c config) st ext
                \<and> (st = OTCRYPTO_OK \<longleftrightarrow> all_match (es_expected c config) ext)
                \<and> (st = OTCRYPTO_OK \<or> st = OTCRYPTO_RECOV_ERR)
                \<and> writes ext = []
                \<and> length (es_expected c config) = 14))"
proof (intro conjI impI)
  assume "fips_enable config \<noteq> kMultiBitBool4True c
            \<or> bypass_conditioner config \<noteq> kMultiBitBool4False c
            \<or> route_to_firmware config \<noteq> kMultiBitBool4False c"
  then have "entropy_src_check c h config tr = (OTCRYPTO_BAD_ARGS, tr)"
    unfolding entropy_src_check_def by (rule if_P)
  then show "st = OTCRYPTO_BAD_ARGS" "tr' = tr"
    using assms by simp_all
next
  assume a: "fips_enable config = kMultiBitBool4True c
            \<and> bypass_conditioner config = kMultiBitBool4False c
            \<and> route_to_firmware config = kMultiBitBool4False c"
  then have "verify_reads h (es_expected c config) tr = (st, tr')"
    using assms es_check_eq [of config c h tr] by simp
  from verify_reads_verified [OF this] obtain ext where
    e: "tr' = tr @ ext" "verified (es_expected c config) st ext"
    by blast
  have l: "length (es_expected c config) = 14"
    by (simp add: es_expected_def fips_thresholds_def)
  show "\<exists>ext. tr' = tr @ ext
                \<and> verified (es_expected c config) st ext
                \<and> (st = OTCRYPTO_OK \<longleftrightarrow> all_match (es_expected c config) ext)
                \<and> (st = OTCRYPTO_OK \<or> st = OTCRYPTO_RECOV_ERR)
                \<and> writes ext = []
                \<and> length (es_expected c config) = 14"
    using e l verified_status [OF e(2)] verified_writes [OF e(2)]
      verified_ok_iff [of "es_expected c config" ext]
      verified_unique [OF e(2), of OTCRYPTO_OK]
    by (intro exI [where x = ext]) auto
qed

lemma sample_es_check_fresh:
  "entropy_src_check sample_chip sample_hw
     (entropy_src (hd (kEntropyComplexConfigs sample_chip))) []
   = (OTCRYPTO_RECOV_ERR, [Read32 0x41160020 0])"
  by (simp add: entropy_src_check_def sample_eval)

lemma sample_es_check_bad:
  "entropy_src_check sample_chip sample_hw
     ((entropy_src (hd (kEntropyComplexConfigs sample_chip)))\<lparr>fips_enable := 0x9\<rparr>) []
   = (OTCRYPTO_BAD_ARGS, [])"
  by (simp add: entropy_src_check_def sample_eval)

lemma sample_es_check_configured:
  "entropy_src_check sample_chip sample_hw
     (entropy_src (hd (kEntropyComplexConfigs sample_chip)))
     [Write32 0x41160028 0x99, Write32 0x41160024 0x909096, Write32 0x41160030 0x600200,
      Write32 0x411600a0 0xfffd0002, Write32 0x41160034 0xffffffff,
      Write32 0x41160038 0xffffffff, Write32 0x4116003c 0xffffffff, Write32 0x41160040 0,
      Write32 0x41160044 0xffffffff, Write32 0x41160048 0xffffffff, Write32 0x4116004c 0,
      Write32 0x41160050 0xffffffff, Write32 0x41160054 0, Write32 0x41160020 6]
   = (OTCRYPTO_OK,
     [Write32 0x41160028 0x99, Write32 0x41160024 0x909096, Write32 0x41160030 0x600200,
      Write32 0x411600a0 0xfffd0002, Write32 0x41160034 0xffffffff,
      Write32 0x41160038 0xffffffff, Write32 0x4116003c 0xffffffff, Write32 0x41160040 0,
      Write32 0x41160044 0xffffffff, Write32 0x41160048 0xffffffff, Write32 0x4116004c 0,
      Write32 0x41160050 0xffffffff, Write32 0x41160054 0, Write32 0x41160020 6]
     @ [Read32 0x41160020 6, Read32 0x41160024 0x909096, Read32 0x41160028 0x99,
        Read32 0x41160030 0x600200, Read32 0x411600a0 0xfffd0002,
        Read32 0x41160034 0xffffffff, Read32 0x41160038 0xffffffff,
        Read32 0x4116003c 0xffffffff, Read32 0x41160040 0, Read32 0x41160044 0xffffffff,
        Read32 0x41160048 0xffffffff, Read32 0x4116004c 0, Read32 0x41160050 0xffffffff,
        Read32 0x41160054 0])"
  by (simp add: entropy_src_check_def sample_eval)


theorem entropy_src_check_outcomes_witness:
  "entropy_src_check sample_chip sample_hw
     ((entropy_src (hd (kEntropyComplexConfigs sample_chip)))\<lparr>fips_enable := 0x9\<rparr>) []
     = (OTCRYPTO_BAD_ARGS, [])
   \<and> (\<exists>ext. [Read32 0x41160020 0] = [] @ ext
        \<and> verified (es_expected sample_chip
                       (entropy_src (hd (kEntropyComplexConfigs sample_chip))))
             OTCRYPTO_RECOV_ERR ext
        \<and> \<not> all_match (es_expected sample_chip
                           (entropy_src (hd (kEntropyComplexConfigs sample_chip)))) ext)
   \<and> (\<exists>ext.
        [Read32 0x41160020 6, Read32 0x41160024 0x909096, Read32 0x41160028 0x99,
         Read32 0x41160030 0x600200, Read32 0x411600a0 0xfffd0002,
         Read32 0x41160034 0xffffffff, Read32 0x41160038 0xffffffff,
         Read32 0x4116003c 0xffffffff, Read32 0x41160040 0, Read32 0x41160044 0xffffffff,
         Read32 0x41160048 0xffffffff, Read32 0x4116004c 0, Read32 0x41160050 0xffffffff,
         Read32 0x41160054 0] = ext
        \<and> verified (es_expected sample_chip
                       (entropy_src (hd (kEntropyComplexConfigs sample_chip))))
             OTCRYPTO_OK ext
        \<and> all_match (es_expected sample_chip
                         (entropy_src (hd (kEntropyComplexConfigs sample_chip)))) ext)"
proof -
  have g: "fips_enable (entropy_src (hd (kEntropyComplexConfigs sample_chip)))
             = kMultiBitBool4True sample_chip
           \<and> bypass_conditioner (entropy_src (hd (kEntropyComplexConfigs sample_chip)))
             = kMultiBitBool4False sample_chip
           \<and> route_to_firmware (entropy_src (hd (kEntropyComplexConfigs sample_chip)))
             = kMultiBitBool4False sample_chip"
    by (simp add: kEntropyComplexConfigs_def)
  from entropy_src_check_outcomes [OF sample_es_check_fresh, THEN conjunct2, rule_format, OF g]
  have 1: "\<exists>ext. [Read32 0x41160020 0] = [] @ ext
        \<and> verified (es_expected sample_chip
                       (entropy_src (hd (kEntropyComplexConfigs sample_chip))))
             OTCRYPTO_RECOV_ERR ext
        \<and> \<not> all_match (es_expected sample_chip
                           (entropy_src (hd (kEntropyComplexConfigs sample_chip)))) ext"
    by auto
  from entropy_src_check_outcomes [OF sample_es_check_configured, THEN conjunct2, rule_format,
      OF g]
  have 2: "\<exists>ext.
        [Read32 0x41160020 6, Read32 0x41160024 0x909096, Read32 0x41160028 0x99,
         Read32 0x41160030 0x600200, Read32 0x411600a0 0xfffd0002,
         Read32 0x41160034 0xffffffff, Read32 0x41160038 0xffffffff,
         Read32 0x4116003c 0xffffffff, Read32 0x41160040 0, Read32 0x41160044 0xffffffff,
         Read32 0x41160048 0xffffffff, Read32 0x4116004c 0, Read32 0x41160050 0xffffffff,
         Read32 0x41160054 0] = ext
        \<and> verified (es_expected sample_chip
                       (entropy_src (hd (kEntropyComplexConfigs sample_chip))))
             OTCRYPTO_OK ext
        \<and> all_match (es_expected sample_chip
                         (entropy_src (hd (kEntropyComplexConfigs sample_chip)))) ext"
    by auto
  from 1 2 sample_es_check_bad show ?thesis
    by blast
qed

section \<open>The accesses of stopping and configuring the blocks\<close>

lemma write_addrs_simps [simp]:
  "write_addrs [] = []"
  "write_addrs (xs @ ys) = write_addrs xs @ write_addrs ys"
  "write_addrs (Write32 a v # xs) = a # write_addrs xs"
  "write_addrs (Read32 a v # xs) = write_addrs xs"
  by (simp_all add: write_addrs_def)

lemma write_addrs_reads: "writes xs = [] \<Longrightarrow> write_addrs xs = []"
  by (induction xs) (auto simp: writes_def write_addrs_def split: access.splits if_splits)

lemma write_addrs_cmd_writes:
  "set (write_addrs (cmd_writes c a cmd False)) = {a}"
  by (auto simp: cmd_writes_def write_addrs_def)

lemma stop_all_trace:
  "\<exists>v0 v1. entropy_complex_stop_all c h tr = tr @ stop_all_accesses c v0 v1"
  by (simp add: entropy_complex_stop_all_def edn_stop_def entropy_src_stop_def
      abs_mmio_read32_def abs_mmio_write32_def stop_all_accesses_def Let_def)

lemma es_configure_trace:
  "entropy_src_configure c h config tr =
     (if bypass_conditioner config \<noteq> kMultiBitBool4False c then (OTCRYPTO_BAD_ARGS, tr)
      else (OTCRYPTO_OK, tr @ es_configure_writes c config))"
  by (simp add: entropy_src_configure_def es_configure_writes_def SET_FIPS_THRESH_def
      abs_mmio_write32_def fips_thresholds_def entropy_control_reg_def conf_reg_def
      alert_threshold_reg_def Let_def)

lemma csrng_configure_trace:
  "csrng_configure c tr =
     tr @ [Write32 (kBaseCsrng c + REG_OFFSET c CSRNG_CTRL) (csrng_ctrl_enable c)]"
  by (simp add: csrng_configure_def csrng_ctrl_enable_def abs_mmio_write32_def Let_def)

text \<open>A call of \<open>csrng_send_app_cmd\<close> without completion tracking writes to its register only.\<close>

lemma send_writes_to:
  assumes "csrng_send_app_cmd c h a cmd False tr = Some (st, tr')"
  shows "\<exists>ext. tr' = tr @ ext \<and> (\<forall>x \<in> set (write_addrs ext). x = a)"
  using send_trace [OF assms]
  by (auto dest!: reads_onlyD
      simp: write_addrs_reads is_idle_wait_writes is_poll_writes write_addrs_cmd_writes)

lemma edn_ready_reads:
  assumes "edn_ready_block c h base tr = Some (st, tr')"
  shows "\<exists>ext. tr' = tr @ ext \<and> write_addrs ext = []"
  using edn_ready_trace [OF assms] by (auto simp: write_addrs_reads is_poll_writes)

lemma edn_configure_writes_to:
  assumes "edn_configure c h config tr = Some (st, tr')"
  shows "\<exists>ext. tr' = tr @ ext \<and> set (write_addrs ext) \<subseteq> set (edn_regs c (base_address config))"
  using assms
  unfolding edn_configure_def Let_def abs_mmio_write32_def
  by (auto split: option.splits if_splits
      dest!: send_writes_to edn_ready_reads simp: edn_regs_def; blast)

section \<open>The order of entropy_complex_init\<close>

lemma init_from_trace:
  assumes "entropy_complex_init_from c h configs tr = Some (st, tr')"
  shows "\<exists>v0 v1 rest.
      tr' = tr @ stop_all_accesses c v0 v1 @ rest
    \<and> (config_id (configs ! unat kEntropyComplexConfigIdContinuous)
          \<noteq> kEntropyComplexConfigIdContinuous
        \<longrightarrow> st = OTCRYPTO_RECOV_ERR \<and> rest = [])
    \<and> (config_id (configs ! unat kEntropyComplexConfigIdContinuous)
          = kEntropyComplexConfigIdContinuous
        \<and> bypass_conditioner (entropy_src (configs ! unat kEntropyComplexConfigIdContinuous))
          \<noteq> kMultiBitBool4False c
        \<longrightarrow> st = OTCRYPTO_BAD_ARGS \<and> rest = [])
    \<and> (config_id (configs ! unat kEntropyComplexConfigIdContinuous)
          = kEntropyComplexConfigIdContinuous
        \<and> bypass_conditioner (entropy_src (configs ! unat kEntropyComplexConfigIdContinuous))
          = kMultiBitBool4False c
        \<longrightarrow> (\<exists>e0 e1 st0.
              rest = es_configure_writes c
                       (entropy_src (configs ! unat kEntropyComplexConfigIdContinuous))
                     @ [Write32 (kBaseCsrng c + REG_OFFSET c CSRNG_CTRL) (csrng_ctrl_enable c)]
                     @ e0 @ e1
            \<and> set (write_addrs e0)
                \<subseteq> set (edn_regs c
                     (base_address (edn0 (configs ! unat kEntropyComplexConfigIdContinuous))))
            \<and> set (write_addrs e1)
                \<subseteq> set (edn_regs c
                     (base_address (edn1 (configs ! unat kEntropyComplexConfigIdContinuous))))
            \<and> edn_configure c h (edn0 (configs ! unat kEntropyComplexConfigIdContinuous))
                (tr @ stop_all_accesses c v0 v1
                  @ es_configure_writes c
                       (entropy_src (configs ! unat kEntropyComplexConfigIdContinuous))
                  @ [Write32 (kBaseCsrng c + REG_OFFSET c CSRNG_CTRL) (csrng_ctrl_enable c)])
              = Some (st0, tr @ stop_all_accesses c v0 v1
                  @ es_configure_writes c
                       (entropy_src (configs ! unat kEntropyComplexConfigIdContinuous))
                  @ [Write32 (kBaseCsrng c + REG_OFFSET c CSRNG_CTRL) (csrng_ctrl_enable c)]
                  @ e0)
            \<and> (st0 \<noteq> OTCRYPTO_OK \<longrightarrow> st = st0 \<and> e1 = [])
            \<and> (st0 = OTCRYPTO_OK \<longrightarrow>
                 edn_configure c h (edn1 (configs ! unat kEntropyComplexConfigIdContinuous))
                   (tr @ stop_all_accesses c v0 v1
                     @ es_configure_writes c
                         (entropy_src (configs ! unat kEntropyComplexConfigIdContinuous))
                     @ [Write32 (kBaseCsrng c + REG_OFFSET c CSRNG_CTRL) (csrng_ctrl_enable c)]
                     @ e0)
                 = Some (st, tr'))))"
proof -
  let ?cfg = "configs ! unat kEntropyComplexConfigIdContinuous"
  let ?C = "Write32 (kBaseCsrng c + REG_OFFSET c CSRNG_CTRL) (csrng_ctrl_enable c)"
  let ?E = "es_configure_writes c (entropy_src ?cfg)"
  obtain v0 v1 where s: "entropy_complex_stop_all c h tr = tr @ stop_all_accesses c v0 v1"
    using stop_all_trace by blast
  let ?S = "stop_all_accesses c v0 v1"
  show ?thesis
  proof (cases "config_id ?cfg = kEntropyComplexConfigIdContinuous")
    case False
    then show ?thesis
      using assms s
      by (intro exI [where x = v0] exI [where x = v1] exI [where x = "[]"])
         (simp add: entropy_complex_init_from_def launder32_def Let_def)
  next
    case id: True
    show ?thesis
    proof (cases "bypass_conditioner (entropy_src ?cfg) = kMultiBitBool4False c")
      case False
      then show ?thesis
        using assms s id
        by (intro exI [where x = v0] exI [where x = v1] exI [where x = "[]"])
           (simp add: entropy_complex_init_from_def launder32_def Let_def es_configure_trace)
    next
      case True
      let ?t2 = "tr @ ?S @ ?E @ [?C]"
      from assms s id True obtain st0 tr3 where
        e0: "edn_configure c h (edn0 ?cfg) ?t2 = Some (st0, tr3)"
        and r: "if st0 \<noteq> OTCRYPTO_OK then st = st0 \<and> tr' = tr3
                else edn_configure c h (edn1 ?cfg) tr3 = Some (st, tr')"
        by (auto simp: entropy_complex_init_from_def launder32_def Let_def es_configure_trace
            csrng_configure_trace split: option.splits if_splits)
      from edn_configure_writes_to [OF e0] obtain x0 where
        x0: "tr3 = ?t2 @ x0" "set (write_addrs x0) \<subseteq> set (edn_regs c (base_address (edn0 ?cfg)))"
        by blast
      show ?thesis
      proof (cases "st0 = OTCRYPTO_OK")
        case False
        then show ?thesis
          using r e0 x0 id True
          by (intro exI [where x = v0] exI [where x = v1]
              exI [where x = "?E @ [?C] @ x0 @ []"])
             (auto intro!: exI [where x = x0] exI [where x = "[]"])
      next
        case ok: True
        then have e1: "edn_configure c h (edn1 ?cfg) tr3 = Some (st, tr')"
          using r by simp
        from edn_configure_writes_to [OF e1] obtain x1 where
          x1: "tr' = tr3 @ x1"
            "set (write_addrs x1) \<subseteq> set (edn_regs c (base_address (edn1 ?cfg)))"
          by blast
        show ?thesis
          using ok e0 e1 x0 x1 id True
          by (intro exI [where x = v0] exI [where x = v1]
              exI [where x = "?E @ [?C] @ x0 @ x1"])
             (auto intro!: exI [where x = x0] exI [where x = x1])
      qed
    qed
  qed
qed

section \<open>C9: the order of entropy_complex_init\<close>

lemma sample_table [simp]:
  "kEntropyComplexConfigs c ! unat kEntropyComplexConfigIdContinuous
     = hd (kEntropyComplexConfigs c)"
  "config_id (hd (kEntropyComplexConfigs c)) = kEntropyComplexConfigIdContinuous"
  "bypass_conditioner (entropy_src (hd (kEntropyComplexConfigs c))) = kMultiBitBool4False c"
  "base_address (edn0 (hd (kEntropyComplexConfigs c))) = kBaseEdn0 c"
  "base_address (edn1 (hd (kEntropyComplexConfigs c))) = kBaseEdn1 c"
  by (simp_all add: kEntropyComplexConfigs_def kEntropyComplexConfigIdContinuous_def)

lemmas sample_init_eval =
  entropy_complex_init_def entropy_complex_init_from_def entropy_complex_stop_all_def
  edn_stop_def entropy_src_stop_def entropy_src_configure_def SET_FIPS_THRESH_def
  csrng_configure_def kEntropyComplexConfigIdContinuous_def

lemma sample_init:
  "entropy_complex_init sample_chip sample_hw [] =
     Some (OTCRYPTO_OK,
       [Read32 0x41170014 0, Write32 0x41170014 0x6000, Write32 0x41170014 0x9999,
        Read32 0x41180014 0, Write32 0x41180014 0x6000, Write32 0x41180014 0x9999,
        Write32 0x41150014 0x999, Write32 0x41160020 9, Write32 0x41160028 0x99,
        Write32 0x41160024 0x909099, Write32 0x41160030 0x600200,
        Write32 0x411600a0 0xfffd0002, Write32 0x41160028 0x99,
        Write32 0x41160024 0x909096, Write32 0x41160030 0x600200,
        Write32 0x411600a0 0xfffd0002, Write32 0x41160034 0xffffffff,
        Write32 0x41160038 0xffffffff, Write32 0x4116003c 0xffffffff,
        Write32 0x41160040 0, Write32 0x41160044 0xffffffff,
        Write32 0x41160048 0xffffffff, Write32 0x4116004c 0,
        Write32 0x41160050 0xffffffff, Write32 0x41160054 0,
        Write32 0x41160020 6, Write32 0x41150014 0x666, Read32 0x4115004c 0x4e,
        Read32 0x4115001c 1, Write32 0x41170028 2, Read32 0x4115004c 0x4e,
        Read32 0x4115001c 1, Write32 0x4117002c 0x8003, Write32 0x41170030 0x20,
        Write32 0x41170014 0x606, Read32 0x41170024 1, Read32 0x4115004c 0x4e,
        Read32 0x4115001c 1, Write32 0x41170020 1, Read32 0x41170024 1,
        Read32 0x4115004c 0x4e, Read32 0x4115001c 1, Write32 0x41180028 2,
        Read32 0x4115004c 0x4e, Read32 0x4115001c 1, Write32 0x4118002c 0x1003,
        Write32 0x41180030 4, Write32 0x41180014 0x606, Read32 0x41180024 1,
        Read32 0x4115004c 0x4e, Read32 0x4115001c 1, Write32 0x41180020 1,
        Read32 0x41180024 1])"
  by (simp add: sample_init_eval sample_eval)

text \<open>
  C9. \<open>entropy_complex_init\<close> first stops the blocks: it reads and writes the control
  register of EDN0 (command FIFO reset, then the reset value), does the same for EDN1,
  writes the reset value to the CSRNG control register, and writes the reset values of
  the entropy source, in this order and whatever the table holds. Only then does it
  compare the identifier of the entry: an entry with another identifier gives
  \<open>OTCRYPTO_RECOV_ERR\<close> with no further access. Next comes the entropy source: a
  configuration that bypasses the conditioner gives \<open>OTCRYPTO_BAD_ARGS\<close> with no
  further access, any other is written; then the CSRNG is enabled, then EDN0 is
  configured, writing to EDN0's registers only. If configuring EDN0 fails its status is
  the result and nothing follows; otherwise EDN1 is configured, writing to EDN1's
  registers only, and its status is the result. The source's \<open>entropy_complex_init\<close> is
  \<open>entropy_complex_init_from\<close> at the table \<open>kEntropyComplexConfigs\<close>.
\<close>

theorem entropy_complex_init_order:
  fixes c h configs tr st tr'
  defines "cfg \<equiv> configs ! unat kEntropyComplexConfigIdContinuous"
  defines "csrng_enable \<equiv>
    Write32 (kBaseCsrng c + REG_OFFSET c CSRNG_CTRL) (csrng_ctrl_enable c)"
  assumes "entropy_complex_init_from c h configs tr = Some (st, tr')"
  shows "\<exists>v0 v1 rest.
      tr' = tr @ stop_all_accesses c v0 v1 @ rest
    \<and> (config_id cfg \<noteq> kEntropyComplexConfigIdContinuous
        \<longrightarrow> st = OTCRYPTO_RECOV_ERR \<and> rest = [])
    \<and> (config_id cfg = kEntropyComplexConfigIdContinuous
        \<and> bypass_conditioner (entropy_src cfg) \<noteq> kMultiBitBool4False c
        \<longrightarrow> st = OTCRYPTO_BAD_ARGS \<and> rest = [])
    \<and> (config_id cfg = kEntropyComplexConfigIdContinuous
        \<and> bypass_conditioner (entropy_src cfg) = kMultiBitBool4False c
        \<longrightarrow> (\<exists>e0 e1 st0.
              rest = es_configure_writes c (entropy_src cfg) @ [csrng_enable] @ e0 @ e1
            \<and> set (write_addrs e0) \<subseteq> set (edn_regs c (base_address (edn0 cfg)))
            \<and> set (write_addrs e1) \<subseteq> set (edn_regs c (base_address (edn1 cfg)))
            \<and> edn_configure c h (edn0 cfg)
                (tr @ stop_all_accesses c v0 v1
                  @ es_configure_writes c (entropy_src cfg) @ [csrng_enable])
              = Some (st0, tr @ stop_all_accesses c v0 v1
                  @ es_configure_writes c (entropy_src cfg) @ [csrng_enable] @ e0)
            \<and> (st0 \<noteq> OTCRYPTO_OK \<longrightarrow> st = st0 \<and> e1 = [])
            \<and> (st0 = OTCRYPTO_OK \<longrightarrow>
                 edn_configure c h (edn1 cfg)
                   (tr @ stop_all_accesses c v0 v1
                     @ es_configure_writes c (entropy_src cfg) @ [csrng_enable] @ e0)
                 = Some (st, tr'))))"
  unfolding cfg_def csrng_enable_def using init_from_trace [OF assms(3)] .

theorem entropy_complex_init_order_witness:
  "\<exists>v0 v1 e0 e1.
      entropy_complex_init_from sample_chip sample_hw (kEntropyComplexConfigs sample_chip) []
        = Some (OTCRYPTO_OK,
            stop_all_accesses sample_chip v0 v1
            @ es_configure_writes sample_chip
                (entropy_src (hd (kEntropyComplexConfigs sample_chip)))
            @ [Write32 0x41150014 (csrng_ctrl_enable sample_chip)] @ e0 @ e1)
    \<and> set (write_addrs e0) \<subseteq> set (edn_regs sample_chip 0x41170000)
    \<and> set (write_addrs e1) \<subseteq> set (edn_regs sample_chip 0x41180000)"
proof -
  let ?T = "snd (the (entropy_complex_init sample_chip sample_hw []))"
  have run: "entropy_complex_init_from sample_chip sample_hw
      (kEntropyComplexConfigs sample_chip) [] = Some (OTCRYPTO_OK, ?T)"
    using sample_init by (simp add: entropy_complex_init_def)
  from entropy_complex_init_order [OF run] obtain v0 v1 e0 e1 where
    "?T = stop_all_accesses sample_chip v0 v1
          @ es_configure_writes sample_chip
              (entropy_src (hd (kEntropyComplexConfigs sample_chip)))
          @ [Write32 0x41150014 (csrng_ctrl_enable sample_chip)] @ e0 @ e1"
    "set (write_addrs e0) \<subseteq> set (edn_regs sample_chip 0x41170000)"
    "set (write_addrs e1) \<subseteq> set (edn_regs sample_chip 0x41180000)"
    by simp blast
  with run show ?thesis
    by (intro exI [where x = v0] exI [where x = v1] exI [where x = e0] exI [where x = e1])
       simp
qed

end
